theory Spec2Isabelle
  imports Complex_Main "HOL-Library.Sublist"
begin

section \<open>Python values of the message workflow (src/main.py)\<close>

text \<open>
  The conversation state \<open>AgentState\<close> is a Python \<open>TypedDict\<close>, that is a plain
  dictionary at run time. A key of it is either missing, or bound to \<open>None\<close>, or bound
  to a value; the source reads keys in three ways, which differ on a missing key:
  \<open>state.get(k)\<close>, \<open>state.get(k, d)\<close> and \<open>state[k]\<close> (which raises
  \<open>KeyError\<close>). Python strings are character lists here.
\<close>

datatype 'a entry = Absent | Present "'a option"

datatype py_error = KeyError string

definition get :: "'a entry \<Rightarrow> 'a option" where
  \<comment> \<open>\<open>state.get(k)\<close>\<close>
  "get e = (case e of Absent \<Rightarrow> None | Present v \<Rightarrow> v)"

definition get_default :: "'a entry \<Rightarrow> 'a \<Rightarrow> 'a option" where
  \<comment> \<open>\<open>state.get(k, d)\<close>: the default is returned for a missing key only\<close>
  "get_default e d = (case e of Absent \<Rightarrow> Some d | Present v \<Rightarrow> v)"

definition item :: "string \<Rightarrow> 'a entry \<Rightarrow> py_error + 'a option" where
  \<comment> \<open>\<open>state[k]\<close>\<close>
  "item k e = (case e of Absent \<Rightarrow> Inl (KeyError k) | Present v \<Rightarrow> Inr v)"

definition truthy :: "string option \<Rightarrow> bool" where
  \<comment> \<open>Python truth value of a \<open>str | None\<close>: \<open>None\<close> and the empty string are false\<close>
  "truthy v = (case v of None \<Rightarrow> False | Some s \<Rightarrow> s \<noteq> [])"

definition py_format :: "string option \<Rightarrow> string" where
  \<comment> \<open>how an f-string renders a \<open>str | None\<close>\<close>
  "py_format v = (case v of None \<Rightarrow> ''None'' | Some s \<Rightarrow> s)"

definition quoted :: "string \<Rightarrow> string" where
  \<comment> \<open>\<open>'{s}'\<close> inside an f-string\<close>
  "quoted s = [CHR 0x27] @ s @ [CHR 0x27]"

definition or_else :: "string option \<Rightarrow> string \<Rightarrow> string" where
  \<comment> \<open>\<open>v or d\<close> on a \<open>str | None\<close>\<close>
  "or_else v d = (case v of None \<Rightarrow> d | Some s \<Rightarrow> if s \<noteq> [] then s else d)"

definition join :: "string \<Rightarrow> string list \<Rightarrow> string" where
  \<comment> \<open>\<open>sep.join(xs)\<close>\<close>
  "join sep xs = (case xs of [] \<Rightarrow> [] | y # ys \<Rightarrow> y @ concat (map (\<lambda>z. sep @ z) ys))"

text \<open>
  A price is a Python float. The workflow only stores prices and passes them on, it never
  computes with them: a float is read as the real number it denotes.
\<close>

type_synonym pyfloat = real

datatype pyval = PNone | PStr string | PFloat pyfloat

definition of_str :: "string option \<Rightarrow> pyval" where
  "of_str v = (case v of None \<Rightarrow> PNone | Some s \<Rightarrow> PStr s)"

definition of_float :: "pyfloat option \<Rightarrow> pyval" where
  "of_float v = (case v of None \<Rightarrow> PNone | Some x \<Rightarrow> PFloat x)"

text \<open>
  A dictionary built by the code keeps its insertion order: an association list.
  The product document has string, float and \<open>None\<close> values; a search hit is a JSON
  record of the backend, whose values stay of an abstract type \<open>'j\<close>.
\<close>

type_synonym product = "(string \<times> pyval) list"
type_synonym 'j hit = "(string \<times> 'j) list"

section \<open>Data model\<close>

text \<open>\<open>class QueryAnalysis(BaseModel)\<close>: the structured answer of the classifier.\<close>

record QueryAnalysis =
  intent :: string
  item_name :: "string option"
  location :: "string option"
  price :: "pyfloat option"
  currency :: "string option"

text \<open>The parts of a pywa message that \<open>handle_incoming_message\<close> reads.\<close>

record media_base =
  mb_media_id :: string
  mb_mime_type :: "string option"
  mb_filename :: "string option"

record message =
  wa_id :: string
  msg_id :: string
  msg_type :: string
  msg_text :: "string option"
  msg_caption :: "string option"
  msg_image :: "media_base option"
  msg_video :: "media_base option"
  msg_audio :: "media_base option"
  msg_document :: "media_base option"

text \<open>
  \<open>class AgentState(TypedDict)\<close>. The task identifier is annotated \<open>str | None\<close> in the
  source but holds the backend's task uid; it is a number here.
\<close>

record 'j AgentState =
  sender_id :: "string entry"
  incoming_message_type :: "string entry"
  incoming_text :: "string entry"
  incoming_media_id :: "string entry"
  incoming_media_mime_type :: "string entry"
  incoming_media_filename :: "string entry"
  incoming_media_path :: "string entry"
  intent :: "string entry"
  item_name :: "string entry"
  location :: "string entry"
  price :: "pyfloat entry"
  currency :: "string entry"
  description :: "string entry"
  product_to_ingest :: "product entry"
  meili_filters :: "string entry"
  search_results :: "'j hit list entry"
  response :: "string entry"
  meili_task_id :: "int entry"
  meili_task_status :: "string entry"
  whatsapp_message_object :: "message entry"

section \<open>External collaborators\<close>

text \<open>
  What \<open>meili_index.add_documents\<close> returns: an object with its attributes (the new
  \<open>TaskInfo\<close>), or a plain dictionary (the legacy answer).
\<close>

datatype task_info = Object "(string \<times> int) list" | Dict "(string \<times> int) list"

definition getattr :: "task_info \<Rightarrow> string \<Rightarrow> int option" where
  "getattr t a = (case t of Object attrs \<Rightarrow> map_of attrs a | Dict d \<Rightarrow> None)"

definition hasattr :: "task_info \<Rightarrow> string \<Rightarrow> bool" where
  "hasattr t a = (getattr t a \<noteq> None)"

definition isinstance_dict :: "task_info \<Rightarrow> bool" where
  "isinstance_dict t = (case t of Object attrs \<Rightarrow> False | Dict d \<Rightarrow> True)"

definition dict_lookup :: "task_info \<Rightarrow> string \<Rightarrow> int option" where
  \<comment> \<open>\<open>task_info[k]\<close> on a dictionary; \<open>k in task_info\<close> is \<open>dict_lookup t k \<noteq> None\<close>\<close>
  "dict_lookup t k = (case t of Object attrs \<Rightarrow> None | Dict d \<Rightarrow> map_of d k)"

text \<open>
  The language model, the search index, the media download and the random identifier
  are parameters of a run. A call that raises answers \<open>None\<close>. A search answer is the
  value of its \<open>hits\<close> key, \<open>None\<close> when the key is missing. \<open>json_str\<close> is Python's
  \<open>str\<close> on a value of a hit.
\<close>

record 'j env =
  llm_invoke :: "string \<Rightarrow> QueryAnalysis option"
  add_documents :: "product list \<Rightarrow> task_info option"
  search :: "string \<Rightarrow> (string \<times> string) list \<Rightarrow> 'j hit list option option"
  download_media :: "string \<Rightarrow> string option option"
  uuid4 :: string
  json_str :: "'j \<Rightarrow> string"

text \<open>The calls to the collaborators that a step makes, in order.\<close>

datatype call =
    LLMInvoke string
  | AddDocuments "product list"
  | Search string "(string \<times> string) list"
  | DownloadMedia string
  | ReplyText string

section \<open>The classification step: \<open>analyze_intent_node\<close>\<close>

definition prompt_guidance :: "string option \<Rightarrow> string option \<Rightarrow> string" where
  "prompt_guidance message_type media_id =
     ''The intent is likely either 'query_product' (asking about something) or 'ingest_product' (stating availability/price/details of something, possibly to sell). ''
     @ ''A media file ('' @ py_format message_type @ '') was ''
     @ (if truthy media_id then ''present (ID: '' @ py_format media_id @ '')'' else ''not present'')
     @ ''. ''
     @ ''If media was present, the intent is almost certainly 'ingest_product'. ''
     @ ''Extract item name, price (if stated), and currency (if stated) from the text. The full text can serve as a description if the intent is ingestion. ''
     @ ''If media was not present, determine intent primarily from the text (lean towards 'query_product' unless keywords like 'sell', 'stock', 'available', 'price' suggest ingestion). Extract location only if it's a query.''"

definition build_prompt :: "string option \<Rightarrow> string option \<Rightarrow> string option \<Rightarrow> string" where
  "build_prompt message_type media_id text_content =
     ''Analyze the following user message content. ''
     @ prompt_guidance message_type media_id
     @ ''Text Content: '' @ quoted (py_format text_content)"

definition apply_analysis ::
  "QueryAnalysis \<Rightarrow> string option \<Rightarrow> string option \<Rightarrow> 'j AgentState \<Rightarrow> 'j AgentState" where
  \<comment> \<open>the body of the \<open>try\<close> after the classifier has answered\<close>
  "apply_analysis analysis media_id text_content state =
     (let intent' = (if truthy media_id then ''ingest_product'' else QueryAnalysis.intent analysis);
          location' = (if intent' = ''query_product'' \<and> \<not> truthy media_id
                       then QueryAnalysis.location analysis else None);
          description' = (if intent' = ''ingest_product'' then text_content else None);
          meili_filters' = (if intent' = ''query_product'' \<and> truthy location'
                            then Some (''vendor = '' @ quoted (py_format location')) else None);
          state1 = state\<lparr>intent := Present (Some intent'),
                         item_name := Present (QueryAnalysis.item_name analysis),
                         price := Present (QueryAnalysis.price analysis),
                         currency := Present (QueryAnalysis.currency analysis),
                         location := Present location',
                         description := Present description',
                         meili_filters := Present meili_filters'\<rparr>
      in if intent' = ''greeting'' then
           state1\<lparr>response := Present (Some ''Hello there! How can I help you?'')\<rparr>
         else if intent' = ''unknown'' then
           state1\<lparr>response := Present (Some ''Sorry, I'm not sure how to help with that. I can search for products or add new ones if you provide details.'')\<rparr>
         else state1)"

definition analyze_intent_node ::
  "'j env \<Rightarrow> 'j AgentState \<Rightarrow> call list \<times> (py_error + 'j AgentState)" where
  "analyze_intent_node env state =
     (let text_content = get (incoming_text state);
          message_type = get (incoming_message_type state);
          media_id = get (incoming_media_id state)
      in if \<not> truthy text_content \<and> \<not> truthy media_id then
           ([], Inr (state\<lparr>intent := Present (Some ''error''),
                           response := Present (Some ''Sorry, I couldn't understand the message content. Please send text or media.'')\<rparr>))
         else if \<not> truthy media_id \<and> \<not> truthy text_content then
           ([], Inr (state\<lparr>intent := Present (Some ''error''),
                           response := Present (Some ''Internal error processing message state.'')\<rparr>))
         else
           let state1 = (if truthy media_id
                         then state\<lparr>intent := Present (Some ''ingest_product'')\<rparr> else state);
               text_content1 = (if truthy media_id \<and> \<not> truthy text_content
                                then Some [] else text_content);
               prompt = build_prompt message_type media_id text_content1;
               state2 = (case llm_invoke env prompt of
                           Some analysis \<Rightarrow> apply_analysis analysis media_id text_content1 state1
                         | None \<Rightarrow>
                             state1\<lparr>intent := Present (Some ''error''),
                                    response := Present (Some ''Sorry, I had trouble analyzing the details of your request.'')\<rparr>)
           in case item ''item_name'' (item_name state2) of
                Inl e \<Rightarrow> ([LLMInvoke prompt], Inl e)
              | Inr v \<Rightarrow> ([LLMInvoke prompt], Inr state2))"

text \<open>
  Names for three local values of the step: the text that is sent to the classifier
  (the empty string for media without a caption), the prompt built from it, and the state
  after the first assignment of the intent.
\<close>

definition caption_of :: "'j AgentState \<Rightarrow> string option" where
  "caption_of state =
     (if truthy (get (incoming_media_id state)) \<and> \<not> truthy (get (incoming_text state))
      then Some [] else get (incoming_text state))"

definition prompt_of :: "'j AgentState \<Rightarrow> string" where
  "prompt_of state =
     build_prompt (get (incoming_message_type state)) (get (incoming_media_id state)) (caption_of state)"

definition forced :: "'j AgentState \<Rightarrow> 'j AgentState" where
  "forced state = (if truthy (get (incoming_media_id state))
                   then state\<lparr>intent := Present (Some ''ingest_product'')\<rparr> else state)"

section \<open>The ingestion steps\<close>

text \<open>
  \<open>structure_ingestion_data_node\<close>. The fallback name is
  \<open>description.split('\n')[0][:50]\<close>: the text before the first newline, cut to fifty
  characters.
\<close>

definition structure_ingestion_data_node :: "'j env \<Rightarrow> 'j AgentState \<Rightarrow> 'j AgentState" where
  "structure_ingestion_data_node env state =
     (let sender_id' = get (sender_id state);
          item_name' = get (item_name state);
          description' = get (description state);
          price' = get (price state);
          currency' = get_default (currency state) ''UGX'';
          media_path = get (incoming_media_path state)
      in if \<not> truthy item_name' \<and> \<not> truthy description' then
           state\<lparr>response := Present (Some ''Missing product name/description for ingestion.''),
                 product_to_ingest := Present None\<rparr>
         else
           let item_name'' =
                 (if \<not> truthy item_name' \<and> truthy description'
                  then Some (take 50 (takeWhile (\<lambda>c. c \<noteq> CHR 0x0A) (or_else description' [])))
                  else if \<not> truthy item_name' then Some ''Unknown Item''
                  else item_name');
               product_data =
                 [(''id'', PStr (uuid4 env)),
                  (''name'', of_str item_name''),
                  (''description'', PStr (or_else description' [])),
                  (''price'', of_float price'),
                  (''currency'', of_str currency'),
                  (''category'', PStr ''Unknown''),
                  (''vendor'', of_str sender_id'),
                  (''media_path'', of_str media_path)]
           in state\<lparr>product_to_ingest := Present (Some product_data)\<rparr>)"

text \<open>
  \<open>add_product_to_meili_node\<close>. \<open>not product_data\<close> holds for \<open>None\<close> and for the
  empty dictionary. Inside the \<open>try\<close>, \<open>product_data['id']\<close> is read for the log line
  before the backend is called; every exception there sets the same response. The local
  \<open>product_name\<close> of the source is never used.
\<close>

definition add_product_to_meili_node ::
  "'j env \<Rightarrow> 'j AgentState \<Rightarrow> call list \<times> 'j AgentState" where
  "add_product_to_meili_node env state =
     (let product_data = get (product_to_ingest state);
          failed = state\<lparr>response := Present (Some ''Sorry, there was an error adding the product to the catalog.'')\<rparr>
      in case product_data of
           None \<Rightarrow>
             ([], state\<lparr>response := Present (Some ''Error: Could not structure product data for storage.'')\<rparr>)
         | Some pd \<Rightarrow>
             if pd = [] then
               ([], state\<lparr>response := Present (Some ''Error: Could not structure product data for storage.'')\<rparr>)
             else
               (case map_of pd ''id'' of
                  None \<Rightarrow> ([], failed)
                | Some i \<Rightarrow>
                    (case add_documents env [pd] of
                       None \<Rightarrow> ([AddDocuments [pd]], failed)
                     | Some task_info \<Rightarrow>
                         if hasattr task_info ''task_uid'' then
                           ([AddDocuments [pd]],
                            state\<lparr>meili_task_id := Present (getattr task_info ''task_uid''),
                                  meili_task_status := Present (Some ''enqueued'')\<rparr>)
                         else if isinstance_dict task_info \<and> dict_lookup task_info ''taskUid'' \<noteq> None then
                           ([AddDocuments [pd]],
                            state\<lparr>meili_task_id := Present (dict_lookup task_info ''taskUid''),
                                  meili_task_status := Present (Some ''enqueued'')\<rparr>)
                         else
                           ([AddDocuments [pd]],
                            state\<lparr>response := Present (Some ''Error: Failed to get task ID after submitting product.'')\<rparr>))))"

section \<open>The search step: \<open>search_meilisearch_node\<close>\<close>

definition hit_get :: "('j \<Rightarrow> string) \<Rightarrow> 'j hit \<Rightarrow> string \<Rightarrow> string \<Rightarrow> string" where
  \<comment> \<open>\<open>{hit.get(k, d)}\<close> inside an f-string; \<open>d\<close> is the default as the f-string prints it\<close>
  "hit_get str hit k d = (case map_of hit k of None \<Rightarrow> d | Some v \<Rightarrow> str v)"

definition format_hit :: "('j \<Rightarrow> string) \<Rightarrow> 'j hit \<Rightarrow> string" where
  "format_hit str hit =
     ''- '' @ hit_get str hit ''name'' ''N/A''
     @ '' ('' @ hit_get str hit ''price'' ''0''
     @ '' '' @ hit_get str hit ''currency'' []
     @ '', Vendor: '' @ hit_get str hit ''vendor'' ''N/A'' @ '')''"

definition search_meilisearch_node ::
  "'j env \<Rightarrow> 'j AgentState \<Rightarrow> call list \<times> 'j AgentState" where
  "search_meilisearch_node env state =
     (let query = get (item_name state);
          filters = get (meili_filters state)
      in if \<not> truthy query \<or> get (intent state) = Some ''error'' then
           let state1 = (if \<not> truthy (get (response state))
                         then state\<lparr>response := Present (Some ''Sorry, I couldn't determine what to search for.'')\<rparr>
                         else state)
           in ([], state1\<lparr>search_results := Present (Some [])\<rparr>)
         else
           let search_params = (if truthy filters then [(''filter'', py_format filters)] else []);
               q = py_format query;
               failed = state\<lparr>search_results := Present (Some []),
                              response := Present (Some ''Sorry, there was an error searching.'')\<rparr>
           in case search env q search_params of
                None \<Rightarrow> ([Search q search_params], failed)
              | Some search_result \<Rightarrow>
                  let hits = (case search_result of None \<Rightarrow> [] | Some h \<Rightarrow> h)
                  in case item ''location'' (location state) of
                       Inl e \<Rightarrow> ([Search q search_params], failed)
                     | Inr loc \<Rightarrow>
                         if hits = [] then
                           ([Search q search_params],
                            state\<lparr>search_results := Present (Some hits),
                                  response := Present (Some (''I couldn't find any '' @ quoted q
                                     @ (if truthy loc then '' in '' @ py_format loc @ ''.'' else ''.'')))\<rparr>)
                         else
                           let formatted_hits = join [CHR 0x0A] (map (format_hit (json_str env)) (take 3 hits));
                               location_str = (if truthy loc then '' in '' @ py_format loc else [])
                           in ([Search q search_params],
                               state\<lparr>search_results := Present (Some hits),
                                     response := Present (Some (''Found these results for '' @ quoted q
                                        @ location_str @ '':'' @ [CHR 0x0A] @ formatted_hits))\<rparr>))"

text \<open>
  Names for two local values of the step: the request parameters (\<open>search_params\<close>) and
  the hits read from the answer (\<open>search_result.get('hits', [])\<close>).
\<close>

definition params_of :: "'j AgentState \<Rightarrow> (string \<times> string) list" where
  "params_of state =
     (if truthy (get (meili_filters state)) then [(''filter'', py_format (get (meili_filters state)))] else [])"

definition hits_of :: "'j hit list option \<Rightarrow> 'j hit list" where
  "hits_of search_result = (case search_result of None \<Rightarrow> [] | Some h \<Rightarrow> h)"

section \<open>The router and the graph\<close>

datatype route = search_meili | structure_ingestion_data | END

definition query_intents :: "string list" where
  "query_intents = [''query_product'']"

definition ingest_intents :: "string list" where
  "ingest_intents = [''ingest_product'']"

definition is_in :: "string option \<Rightarrow> string list \<Rightarrow> bool" where
  \<comment> \<open>\<open>intent in xs\<close> for a \<open>str | None\<close> and a list of strings\<close>
  "is_in v xs = (case v of None \<Rightarrow> False | Some s \<Rightarrow> s \<in> set xs)"

text \<open>
  \<open>route_after_intent_analysis\<close> returns the name of the next step. It also assigns
  to the state dictionary it is given: the second component is that dictionary as the
  function leaves it.
\<close>

definition route_after_intent_analysis :: "'j AgentState \<Rightarrow> route \<times> 'j AgentState" where
  "route_after_intent_analysis state =
     (let intent' = get (intent state)
      in if is_in intent' query_intents then
           if truthy (get (item_name state)) then (search_meili, state)
           else if \<not> truthy (get (response state)) then
             (END, state\<lparr>response := Present (Some ''You asked to search, but didn't specify an item.'')\<rparr>)
           else (END, state)
         else if is_in intent' ingest_intents then (structure_ingestion_data, state)
         else if intent' = Some ''greeting'' then (END, state)
         else if intent' = Some ''unknown'' then (END, state)
         else if \<not> truthy (get (response state)) then
           (END, state\<lparr>response := Present (Some ''Sorry, I encountered an issue processing your request.'')\<rparr>)
         else (END, state))"

text \<open>
  The graph of the source: \<open>analyze_intent\<close> is the entry point, the router chooses
  among \<open>search_meili\<close>, \<open>structure_ingestion_data\<close> and the end, \<open>search_meili\<close> goes to
  the end, \<open>structure_ingestion_data\<close> goes to \<open>add_product_to_meili\<close>, which goes to
  the end. The four steps are nodes (\<open>add_node\<close>): the state a node returns is the state
  of the graph. The router is not a node: it is registered with
  \<open>add_conditional_edges\<close>, so the graph takes the name it returns and nothing else, and
  what the router assigns to the dictionary it was given is not part of the graph's state.
  The state that goes on to the next step, or that ends the run, is the one the
  classification step returned. An exception that leaves a step ends the run.
\<close>

definition ingestion_branch :: "'j env \<Rightarrow> 'j AgentState \<Rightarrow> call list \<times> 'j AgentState" where
  "ingestion_branch env state = add_product_to_meili_node env (structure_ingestion_data_node env state)"

definition invoke :: "'j env \<Rightarrow> 'j AgentState \<Rightarrow> call list \<times> (py_error + 'j AgentState)" where
  "invoke env state =
     (case analyze_intent_node env state of
        (calls1, Inl e) \<Rightarrow> (calls1, Inl e)
      | (calls1, Inr state1) \<Rightarrow>
          (case fst (route_after_intent_analysis state1) of
             search_meili \<Rightarrow>
               (case search_meilisearch_node env state1 of
                  (calls2, state2) \<Rightarrow> (calls1 @ calls2, Inr state2))
           | structure_ingestion_data \<Rightarrow>
               (case ingestion_branch env state1 of
                  (calls2, state2) \<Rightarrow> (calls1 @ calls2, Inr state2))
           | END \<Rightarrow> (calls1, Inr state1)))"

section \<open>The entry point: \<open>handle_incoming_message\<close>\<close>

definition first_media :: "message \<Rightarrow> media_base option" where
  \<comment> \<open>\<open>media_to_download\<close>: image, else video, else audio, else document\<close>
  "first_media msg =
     (case msg_image msg of Some m \<Rightarrow> Some m | None \<Rightarrow>
      (case msg_video msg of Some m \<Rightarrow> Some m | None \<Rightarrow>
       (case msg_audio msg of Some m \<Rightarrow> Some m | None \<Rightarrow> msg_document msg)))"

definition initial_state :: "'j env \<Rightarrow> message \<Rightarrow> call list \<times> 'j AgentState" where
  "initial_state env msg =
     (let state0 = \<lparr>sender_id = Present (Some (wa_id msg)),
                    incoming_message_type = Present (Some (msg_type msg)),
                    incoming_text = Present None,
                    incoming_media_id = Present None,
                    incoming_media_mime_type = Present None,
                    incoming_media_filename = Present None,
                    incoming_media_path = Present None,
                    intent = Present None,
                    item_name = Present None,
                    location = Present None,
                    price = Present None,
                    currency = Present None,
                    description = Present None,
                    product_to_ingest = Present None,
                    meili_filters = Present None,
                    search_results = Present None,
                    response = Present None,
                    meili_task_id = Present None,
                    meili_task_status = Present None,
                    whatsapp_message_object = Present (Some msg)\<rparr>;
          state1 = (if truthy (msg_text msg) then state0\<lparr>incoming_text := Present (msg_text msg)\<rparr>
                    else if truthy (msg_caption msg) then state0\<lparr>incoming_text := Present (msg_caption msg)\<rparr>
                    else state0)
      in case first_media msg of
           None \<Rightarrow> ([], state1)
         | Some m \<Rightarrow>
             let state2 = state1\<lparr>incoming_media_mime_type := Present (mb_mime_type m),
                                incoming_media_filename :=
                                  Present (if msg_image msg = None \<and> msg_video msg = None \<and> msg_audio msg = None
                                           then mb_filename m else None),
                                incoming_media_id := Present (Some (mb_media_id m))\<rparr>
             in case download_media env (mb_media_id m) of
                  Some file_path \<Rightarrow>
                    if truthy file_path
                    then ([DownloadMedia (mb_media_id m)], state2\<lparr>incoming_media_path := Present file_path\<rparr>)
                    else ([DownloadMedia (mb_media_id m)], state2)
                | None \<Rightarrow> ([DownloadMedia (mb_media_id m)], state2))"

definition handle_incoming_message ::
  "'j env \<Rightarrow> message \<Rightarrow> call list \<times> 'j AgentState option" where
  \<comment> \<open>the calls made and \<open>final_state\<close>, \<open>None\<close> when the graph raised and the fallback reply was sent\<close>
  "handle_incoming_message env msg =
     (case initial_state env msg of
        (calls0, state) \<Rightarrow>
          (case invoke env state of
             (calls1, Inr final_state) \<Rightarrow> (calls0 @ calls1, Some final_state)
           | (calls1, Inl e) \<Rightarrow>
               (calls0 @ calls1 @ [ReplyText ''Sorry, an internal error occurred while processing your request.''],
                None)))"

section \<open>Sample inputs\<close>

text \<open>
  A classifier that answers a product query whatever it is asked, a backend that accepts
  every document with a new-style task answer and finds nothing, and three messages: one
  with text only, one with an image and no caption, one with neither.
\<close>

definition sample_analysis :: QueryAnalysis where
  "sample_analysis =
     \<lparr>QueryAnalysis.intent = ''query_product'', QueryAnalysis.item_name = Some ''iphone'',
      QueryAnalysis.location = Some ''Kampala'', QueryAnalysis.price = None,
      QueryAnalysis.currency = None\<rparr>"

definition sample_env :: "string env" where
  "sample_env =
     \<lparr>llm_invoke = (\<lambda>prompt. Some sample_analysis),
      add_documents = (\<lambda>docs. Some (Object [(''task_uid'', 7)])),
      search = (\<lambda>q params. Some (Some [])),
      download_media = (\<lambda>m. None),
      uuid4 = ''6f1c2a9e'',
      json_str = (\<lambda>v. v)\<rparr>"

definition text_message :: message where
  "text_message =
     \<lparr>wa_id = ''256700000001'', msg_id = ''wamid.1'', msg_type = ''text'',
      msg_text = Some ''iphone price'', msg_caption = None,
      msg_image = None, msg_video = None, msg_audio = None, msg_document = None\<rparr>"

definition image_message :: message where
  "image_message =
     \<lparr>wa_id = ''256700000001'', msg_id = ''wamid.2'', msg_type = ''image'',
      msg_text = None, msg_caption = None,
      msg_image = Some \<lparr>mb_media_id = ''9001'', mb_mime_type = Some ''image/jpeg'', mb_filename = None\<rparr>,
      msg_video = None, msg_audio = None, msg_document = None\<rparr>"

definition empty_message :: message where
  "empty_message =
     \<lparr>wa_id = ''256700000001'', msg_id = ''wamid.3'', msg_type = ''unsupported'',
      msg_text = None, msg_caption = None,
      msg_image = None, msg_video = None, msg_audio = None, msg_document = None\<rparr>"

definition state_of :: "message \<Rightarrow> string AgentState" where
  \<comment> \<open>the state with which the graph is entered for a message\<close>
  "state_of msg = snd (initial_state sample_env msg)"

text \<open>
  A classifier that extracts no item name for an ingestion, one that sees a query without
  an item, a backend whose write raises, a backend that finds four hits, and the states
  these lead to.
\<close>

definition nameless_analysis :: QueryAnalysis where
  "nameless_analysis =
     \<lparr>QueryAnalysis.intent = ''ingest_product'', QueryAnalysis.item_name = None,
      QueryAnalysis.location = None, QueryAnalysis.price = None,
      QueryAnalysis.currency = None\<rparr>"

definition nameless_env :: "string env" where
  "nameless_env = sample_env\<lparr>llm_invoke := (\<lambda>prompt. Some nameless_analysis)\<rparr>"

definition itemless_analysis :: QueryAnalysis where
  "itemless_analysis =
     \<lparr>QueryAnalysis.intent = ''query_product'', QueryAnalysis.item_name = None,
      QueryAnalysis.location = None, QueryAnalysis.price = None,
      QueryAnalysis.currency = None\<rparr>"

definition itemless_env :: "string env" where
  "itemless_env = sample_env\<lparr>llm_invoke := (\<lambda>prompt. Some itemless_analysis)\<rparr>"

definition failing_env :: "string env" where
  "failing_env = sample_env\<lparr>add_documents := (\<lambda>docs. None)\<rparr>"

definition four_hits :: "string hit list" where
  "four_hits =
     [[(''name'', ''iPhone 12''), (''price'', ''2500000''), (''currency'', ''UGX''), (''vendor'', ''256700000002'')],
      [(''name'', ''iPhone 11''), (''price'', ''1900000''), (''currency'', ''UGX''), (''vendor'', ''256700000003'')],
      [(''name'', ''iPhone case'')],
      [(''name'', ''iPhone 8''), (''price'', ''600000''), (''currency'', ''UGX''), (''vendor'', ''256700000004'')]]"

definition stocked_env :: "string env" where
  "stocked_env = sample_env\<lparr>search := (\<lambda>q params. Some (Some four_hits))\<rparr>"

definition nameless_image_analysed :: "string AgentState" where
  "nameless_image_analysed =
     apply_analysis nameless_analysis (Some ''9001'') (Some []) (forced (state_of image_message))"

definition named_image_state :: "string AgentState" where
  "named_image_state = (state_of image_message)\<lparr>item_name := Present (Some ''mangoes'')\<rparr>"

definition sample_product :: product where
  "sample_product =
     [(''id'', PStr ''6f1c2a9e''), (''name'', PStr ''mangoes''), (''description'', PStr []),
      (''price'', PNone), (''currency'', PNone), (''category'', PStr ''Unknown''),
      (''vendor'', PStr ''256700000001''), (''media_path'', PNone)]"

definition structured_image_state :: "string AgentState" where
  "structured_image_state = named_image_state\<lparr>product_to_ingest := Present (Some sample_product)\<rparr>"

definition unanswered_greeting :: "string AgentState" where
  "unanswered_greeting = (state_of text_message)\<lparr>intent := Present (Some ''greeting'')\<rparr>"

definition itemless_query :: "string AgentState" where
  "itemless_query = (state_of text_message)\<lparr>intent := Present (Some ''query_product'')\<rparr>"

section \<open>Reading the state\<close>

lemma get_simps:
  "get Absent = None" "get (Present v) = v"
  by (simp_all add: get_def)

lemma truthy_simps:
  "truthy None = False" "truthy (Some s) = (s \<noteq> [])"
  by (simp_all add: truthy_def)

lemma is_in_simps:
  "is_in None xs = False" "is_in (Some s) xs = (s \<in> set xs)"
  by (simp_all add: is_in_def)

section \<open>The steps, field by field\<close>


lemma item_simps:
  "item k Absent = Inl (KeyError k)" "item k (Present v) = Inr v"
  by (simp_all add: item_def)

lemma search_response_set:
  "truthy (get (response (snd (search_meilisearch_node env state))))"
  by (auto simp: search_meilisearch_node_def Let_def get_simps truthy_simps item_simps quoted_def
      split: option.splits sum.splits entry.splits)

lemma search_keeps_task:
  "meili_task_status (snd (search_meilisearch_node env state)) = meili_task_status state"
  by (auto simp: search_meilisearch_node_def Let_def item_simps
      split: option.splits sum.splits entry.splits)

lemma structure_cases:
  "structure_ingestion_data_node env state = state'
   \<Longrightarrow> meili_task_status state' = meili_task_status state
       \<and> intent state' = intent state
       \<and> ((\<not> truthy (get (item_name state)) \<and> \<not> truthy (get (description state))
            \<and> product_to_ingest state' = Present None \<and> truthy (get (response state')))
          \<or> ((truthy (get (item_name state)) \<or> truthy (get (description state)))
            \<and> (\<exists>pd. product_to_ingest state' = Present (Some pd) \<and> pd \<noteq> [] \<and> map_of pd ''id'' \<noteq> None)
            \<and> response state' = response state))"
  by (auto simp: structure_ingestion_data_node_def Let_def get_simps truthy_simps)

lemma writer_cases:
  "add_product_to_meili_node env state = (calls, state')
   \<Longrightarrow> (truthy (get (response state')) \<and> meili_task_status state' = meili_task_status state
         \<and> intent state' = intent state)
       \<or> (response state' = response state
         \<and> meili_task_status state' = Present (Some ''enqueued'')
         \<and> intent state' = intent state
         \<and> (\<exists>pd. calls = [AddDocuments [pd]] \<and> get (product_to_ingest state) = Some pd))"
  by (auto simp: add_product_to_meili_node_def Let_def get_simps truthy_simps
      split: option.splits if_splits)

lemma ingestion_branch_cases:
  assumes "ingestion_branch env state = (calls, state')"
  shows "(truthy (get (response state')) \<and> meili_task_status state' = meili_task_status state
          \<and> intent state' = intent state)
       \<or> (response state' = response state
         \<and> meili_task_status state' = Present (Some ''enqueued'')
         \<and> intent state' = intent state
         \<and> (\<exists>pd. calls = [AddDocuments [pd]]))"
proof -
  let ?m = "structure_ingestion_data_node env state"
  have w: "add_product_to_meili_node env ?m = (calls, state')"
    using assms by (simp add: ingestion_branch_def)
  have s: "meili_task_status ?m = meili_task_status state" "intent ?m = intent state"
    using structure_cases [OF refl, of env state] by blast+
  from structure_cases [OF refl, of env state]
  consider (fail) "product_to_ingest ?m = Present None"
    | (ok) "response ?m = response state" by blast
  then show ?thesis
  proof cases
    case fail
    then have "calls = [] \<and> state' = ?m\<lparr>response := Present (Some ''Error: Could not structure product data for storage.'')\<rparr>"
      using w by (auto simp: add_product_to_meili_node_def Let_def get_simps)
    then show ?thesis using s structure_cases [OF refl, of env state] fail
      by (auto simp: get_simps truthy_simps)
  next
    case ok
    with writer_cases [OF w] s show ?thesis by auto
  qed
qed

lemma apply_analysis_intent:
  "intent (apply_analysis analysis media_id text_content state) =
     Present (Some (if truthy media_id then ''ingest_product'' else QueryAnalysis.intent analysis))"
  by (simp add: apply_analysis_def Let_def)

lemma apply_analysis_keys:
  "item_name (apply_analysis analysis media_id text_content state) = Present (QueryAnalysis.item_name analysis)"
  "location (apply_analysis analysis media_id text_content state) \<noteq> Absent"
  "meili_task_status (apply_analysis analysis media_id text_content state) = meili_task_status state"
  by (simp_all add: apply_analysis_def Let_def)

lemma apply_analysis_response:
  "response (apply_analysis analysis media_id text_content state) =
     (if truthy media_id then response state
      else if QueryAnalysis.intent analysis = ''greeting'' then Present (Some ''Hello there! How can I help you?'')
      else if QueryAnalysis.intent analysis = ''unknown'' then Present (Some ''Sorry, I'm not sure how to help with that. I can search for products or add new ones if you provide details.'')
      else response state)"
  by (simp add: apply_analysis_def Let_def)

lemma analyze_no_content:
  assumes "\<not> truthy (get (incoming_text state))" and "\<not> truthy (get (incoming_media_id state))"
  shows "analyze_intent_node env state =
           ([], Inr (state\<lparr>intent := Present (Some ''error''),
                 response := Present (Some ''Sorry, I couldn't understand the message content. Please send text or media.'')\<rparr>))"
  using assms by (simp add: analyze_intent_node_def Let_def)

lemma analyze_llm_ok:
  assumes "truthy (get (incoming_text state)) \<or> truthy (get (incoming_media_id state))"
    and "llm_invoke env (prompt_of state) = Some a"
  shows "analyze_intent_node env state =
           ([LLMInvoke (prompt_of state)],
            Inr (apply_analysis a (get (incoming_media_id state)) (caption_of state) (forced state)))"
proof -
  have "item_name (apply_analysis a (get (incoming_media_id state)) (caption_of state) (forced state))
          = Present (QueryAnalysis.item_name a)"
    by (rule apply_analysis_keys)
  then show ?thesis using assms
    unfolding analyze_intent_node_def Let_def prompt_of_def [symmetric] caption_of_def [symmetric] forced_def [symmetric]
    by (auto simp: item_def)
qed

lemma analyze_llm_fail:
  assumes "truthy (get (incoming_text state)) \<or> truthy (get (incoming_media_id state))"
    and "llm_invoke env (prompt_of state) = None"
  shows "analyze_intent_node env state =
           ([LLMInvoke (prompt_of state)],
            case item_name state of
              Absent \<Rightarrow> Inl (KeyError ''item_name'')
            | Present v \<Rightarrow>
                Inr ((forced state)\<lparr>intent := Present (Some ''error''),
                      response := Present (Some ''Sorry, I had trouble analyzing the details of your request.'')\<rparr>))"
proof -
  have "item_name (forced state) = item_name state" by (simp add: forced_def)
  then show ?thesis using assms
    unfolding analyze_intent_node_def Let_def prompt_of_def [symmetric] caption_of_def [symmetric] forced_def [symmetric]
    by (auto simp: item_def split: entry.splits)
qed

lemma forced_fields:
  "response (forced state) = response state"
  "meili_task_status (forced state) = meili_task_status state"
  "item_name (forced state) = item_name state"
  by (simp_all add: forced_def)

lemma analyze_summary:
  assumes "analyze_intent_node env state = (calls, Inr state')"
  shows "meili_task_status state' = meili_task_status state
       \<and> (calls = [] \<or> calls = [LLMInvoke (prompt_of state)])
       \<and> (\<exists>i. intent state' = Present (Some i)
             \<and> (i = ''greeting'' \<or> i = ''unknown'' \<longrightarrow> truthy (get (response state')))
             \<and> (truthy (get (response state')) \<or> response state' = response state)
             \<and> (i = ''query_product'' \<or> i = ''ingest_product''
                  \<longrightarrow> response state' = response state \<and> location state' \<noteq> Absent))"
proof (cases "truthy (get (incoming_text state)) \<or> truthy (get (incoming_media_id state))")
  case False
  with assms analyze_no_content [of state env]
  have st: "state' = state\<lparr>intent := Present (Some ''error''),
                 response := Present (Some ''Sorry, I couldn't understand the message content. Please send text or media.'')\<rparr>"
    and c: "calls = []" by simp_all
  have "intent state' = Present (Some ''error'')" "truthy (get (response state'))"
    "meili_task_status state' = meili_task_status state"
    by (simp_all add: st get_simps truthy_simps)
  with c show ?thesis by simp
next
  case True
  show ?thesis
  proof (cases "llm_invoke env (prompt_of state)")
    case None
    from analyze_llm_fail [OF True None] assms
    have st: "state' = (forced state)\<lparr>intent := Present (Some ''error''),
                      response := Present (Some ''Sorry, I had trouble analyzing the details of your request.'')\<rparr>"
      and c: "calls = [LLMInvoke (prompt_of state)]"
      by (simp_all split: entry.splits)
    have "intent state' = Present (Some ''error'')" "truthy (get (response state'))"
      "meili_task_status state' = meili_task_status state"
      by (simp_all add: st get_simps truthy_simps forced_fields)
    with c show ?thesis by simp
  next
    case (Some a)
    from analyze_llm_ok [OF True Some] assms
    have st: "state' = apply_analysis a (get (incoming_media_id state)) (caption_of state) (forced state)"
      and c: "calls = [LLMInvoke (prompt_of state)]" by simp_all
    show ?thesis
      by (simp add: st c apply_analysis_intent apply_analysis_keys apply_analysis_response
          forced_fields get_simps truthy_simps)
  qed
qed

lemma analyze_total:
  assumes "item_name state \<noteq> Absent"
  shows "\<exists>calls state'. analyze_intent_node env state = (calls, Inr state')"
proof (cases "truthy (get (incoming_text state)) \<or> truthy (get (incoming_media_id state))")
  case False
  with analyze_no_content [of state env] show ?thesis by simp
next
  case True
  show ?thesis
  proof (cases "llm_invoke env (prompt_of state)")
    case None
    from assms obtain v where "item_name state = Present v" by (cases "item_name state") auto
    with analyze_llm_fail [OF True None] show ?thesis by simp
  next
    case (Some a)
    from analyze_llm_ok [OF True Some] show ?thesis by simp
  qed
qed

lemma route_decision:
  "fst (route_after_intent_analysis state) =
     (if get (intent state) = Some ''query_product'' then
        (if truthy (get (item_name state)) then search_meili else END)
      else if get (intent state) = Some ''ingest_product'' then structure_ingestion_data
      else END)"
  by (simp add: route_after_intent_analysis_def Let_def is_in_def query_intents_def
      ingest_intents_def split: option.splits)

lemma route_response:
  "response (snd (route_after_intent_analysis state)) =
     (if truthy (get (response state)) then response state
      else if get (intent state) = Some ''query_product'' then
        (if truthy (get (item_name state)) then response state
         else Present (Some ''You asked to search, but didn't specify an item.''))
      else if get (intent state) = Some ''ingest_product'' \<or> get (intent state) = Some ''greeting''
              \<or> get (intent state) = Some ''unknown'' then response state
      else Present (Some ''Sorry, I encountered an issue processing your request.''))"
  by (simp add: route_after_intent_analysis_def Let_def is_in_def query_intents_def
      ingest_intents_def split: option.splits)

lemma route_frame:
  "snd (route_after_intent_analysis state) =
     state\<lparr>response := response (snd (route_after_intent_analysis state))\<rparr>"
  by (simp add: route_after_intent_analysis_def Let_def)

lemma route_fields:
  "meili_task_status (snd (route_after_intent_analysis state)) = meili_task_status state"
  "intent (snd (route_after_intent_analysis state)) = intent state"
  "item_name (snd (route_after_intent_analysis state)) = item_name state"
  "location (snd (route_after_intent_analysis state)) = location state"
  "description (snd (route_after_intent_analysis state)) = description state"
  by (simp_all add: route_after_intent_analysis_def Let_def)


lemma invoke_raises:
  "analyze_intent_node env state = (c1, Inl e) \<Longrightarrow> invoke env state = (c1, Inl e)"
  by (simp add: invoke_def)

lemma invoke_routes:
  assumes "analyze_intent_node env state = (c1, Inr s1)"
  shows "invoke env state =
     (case fst (route_after_intent_analysis s1) of
        search_meili \<Rightarrow>
          (c1 @ fst (search_meilisearch_node env s1), Inr (snd (search_meilisearch_node env s1)))
      | structure_ingestion_data \<Rightarrow>
          (c1 @ fst (ingestion_branch env s1), Inr (snd (ingestion_branch env s1)))
      | END \<Rightarrow> (c1, Inr s1))"
  using assms by (simp add: invoke_def split: prod.splits route.splits)

lemma invoke_response_cases:
  assumes "invoke env state = (calls, Inr final)"
    and "response state = Present None" and "meili_task_status state = Present None"
  shows "(truthy (get (response final)) \<and> meili_task_status final = Present None)
       \<or> (response final = Present None \<and> meili_task_status final = Present (Some ''enqueued'')
          \<and> intent final = Present (Some ''ingest_product'')
          \<and> (\<exists>pd. AddDocuments [pd] \<in> set calls))
       \<or> (response final = Present None \<and> meili_task_status final = Present None
          \<and> fst (route_after_intent_analysis final) = END
          \<and> get (intent final) \<noteq> Some ''greeting'' \<and> get (intent final) \<noteq> Some ''unknown'')"
proof -
  obtain c1 r where a0: "analyze_intent_node env state = (c1, r)" by fastforce
  with assms(1) invoke_raises [of env state c1] obtain s1 where
    a: "analyze_intent_node env state = (c1, Inr s1)" by (cases r) auto
  from analyze_summary [OF a] obtain i where
    A: "meili_task_status s1 = meili_task_status state" "intent s1 = Present (Some i)"
       "i = ''greeting'' \<or> i = ''unknown'' \<longrightarrow> truthy (get (response s1))"
       "truthy (get (response s1)) \<or> response s1 = response state"
       "i = ''query_product'' \<or> i = ''ingest_product'' \<longrightarrow> response s1 = response state"
    by (elim conjE exE) simp
  let ?d = "fst (route_after_intent_analysis s1)"
  have d: "?d = (if i = ''query_product'' then (if truthy (get (item_name s1)) then search_meili else END)
                 else if i = ''ingest_product'' then structure_ingestion_data else END)"
    by (simp add: route_decision A(2) get_simps)
  have st: "meili_task_status s1 = Present None" by (simp add: A assms(3))
  note inv = invoke_routes [OF a]
  show ?thesis
  proof (cases ?d)
    case search_meili
    with inv assms(1) have "final = snd (search_meilisearch_node env s1)" by simp
    with search_response_set [of env s1] search_keeps_task [of env s1] st
    show ?thesis by simp
  next
    case structure_ingestion_data
    with d have i: "i = ''ingest_product''" by (simp split: if_splits)
    from structure_ingestion_data inv assms(1)
    have f: "final = snd (ingestion_branch env s1)" and c: "calls = c1 @ fst (ingestion_branch env s1)"
      by simp_all
    have r: "response s1 = Present None" using A(5) i assms(2) by simp
    have "ingestion_branch env s1 = (fst (ingestion_branch env s1), final)" by (simp add: f)
    from ingestion_branch_cases [OF this] r st i c A(2) show ?thesis by auto
  next
    case END
    with inv assms(1) have f: "final = s1" by simp
    show ?thesis
    proof (cases "truthy (get (response s1))")
      case True
      with f st show ?thesis by simp
    next
      case False
      with A(3,4) assms(2) have "response s1 = Present None" "i \<noteq> ''greeting''" "i \<noteq> ''unknown''"
        by auto
      with f st END A(2) show ?thesis by (simp add: get_simps)
    qed
  qed
qed

lemma initial_state_fields:
  "response (snd (initial_state env msg)) = Present None"
  "meili_task_status (snd (initial_state env msg)) = Present None"
  "item_name (snd (initial_state env msg)) = Present None"
  by (simp_all add: initial_state_def Let_def split: option.splits)

lemma invoke_total:
  assumes "item_name state \<noteq> Absent"
  shows "\<exists>calls final. invoke env state = (calls, Inr final)"
proof -
  from analyze_total [OF assms, of env] obtain c1 s1 where
    a: "analyze_intent_node env state = (c1, Inr s1)" by (elim exE)
  from invoke_routes [OF a] show ?thesis
    by (cases "fst (route_after_intent_analysis s1)") simp_all
qed

lemma structure_missing_fields:
  assumes "\<not> truthy (get (item_name state))" and "\<not> truthy (get (description state))"
  shows "structure_ingestion_data_node env state =
           state\<lparr>response := Present (Some ''Missing product name/description for ingestion.''),
                 product_to_ingest := Present None\<rparr>"
  using assms by (simp add: structure_ingestion_data_node_def Let_def)

lemma writer_without_product:
  assumes "get (product_to_ingest state) = None"
  shows "add_product_to_meili_node env state =
           ([], state\<lparr>response := Present (Some ''Error: Could not structure product data for storage.'')\<rparr>)"
  using assms by (simp add: add_product_to_meili_node_def Let_def)

lemma ingestion_branch_missing_fields:
  assumes "\<not> truthy (get (item_name state))" and "\<not> truthy (get (description state))"
  shows "ingestion_branch env state =
           ([], state\<lparr>response := Present (Some ''Error: Could not structure product data for storage.''),
                     product_to_ingest := Present None\<rparr>)"
  by (simp add: ingestion_branch_def structure_missing_fields [OF assms] writer_without_product get_simps)

lemma apply_analysis_entities:
  "price (apply_analysis analysis media_id text_content state) = Present (QueryAnalysis.price analysis)"
  "currency (apply_analysis analysis media_id text_content state) = Present (QueryAnalysis.currency analysis)"
  "description (apply_analysis analysis media_id text_content state) =
     Present (if (if truthy media_id then ''ingest_product'' else QueryAnalysis.intent analysis) = ''ingest_product''
              then text_content else None)"
  by (simp_all add: apply_analysis_def Let_def)

lemma analyze_calls:
  "fst (analyze_intent_node env state) =
     (if truthy (get (incoming_text state)) \<or> truthy (get (incoming_media_id state))
      then [LLMInvoke (prompt_of state)] else [])"
proof (cases "truthy (get (incoming_text state)) \<or> truthy (get (incoming_media_id state))")
  case False
  with analyze_no_content [of state env] show ?thesis by simp
next
  case True
  show ?thesis
  proof (cases "llm_invoke env (prompt_of state)")
    case None
    from analyze_llm_fail [OF True None] True show ?thesis by simp
  next
    case (Some a)
    from analyze_llm_ok [OF True Some] True show ?thesis by simp
  qed
qed

lemma writer_raises:
  assumes "get (product_to_ingest state) = Some pd" and "pd \<noteq> []" and "map_of pd ''id'' = Some i"
    and "add_documents env [pd] = None"
  shows "add_product_to_meili_node env state =
           ([AddDocuments [pd]],
            state\<lparr>response := Present (Some ''Sorry, there was an error adding the product to the catalog.'')\<rparr>)"
  using assms by (simp add: add_product_to_meili_node_def Let_def)

lemma writer_unrecognised:
  assumes "get (product_to_ingest state) = Some pd" and "pd \<noteq> []" and "map_of pd ''id'' = Some i"
    and "add_documents env [pd] = Some t"
    and "\<not> hasattr t ''task_uid''" and "\<not> (isinstance_dict t \<and> dict_lookup t ''taskUid'' \<noteq> None)"
  shows "add_product_to_meili_node env state =
           ([AddDocuments [pd]],
            state\<lparr>response := Present (Some ''Error: Failed to get task ID after submitting product.'')\<rparr>)"
  using assms by (cases "isinstance_dict t") (simp_all add: add_product_to_meili_node_def Let_def)

lemma writer_enqueued:
  assumes "get (product_to_ingest state) = Some pd" and "pd \<noteq> []" and "map_of pd ''id'' = Some i"
    and "add_documents env [pd] = Some t"
    and "hasattr t ''task_uid'' \<or> (isinstance_dict t \<and> dict_lookup t ''taskUid'' \<noteq> None)"
  shows "add_product_to_meili_node env state =
           ([AddDocuments [pd]],
            state\<lparr>meili_task_id :=
                    Present (if hasattr t ''task_uid'' then getattr t ''task_uid''
                             else dict_lookup t ''taskUid''),
                  meili_task_status := Present (Some ''enqueued'')\<rparr>)"
  using assms by (cases "hasattr t ''task_uid''") (simp_all add: add_product_to_meili_node_def Let_def)

lemma search_guarded:
  assumes "\<not> truthy (get (item_name state)) \<or> get (intent state) = Some ''error''"
  shows "search_meilisearch_node env state =
           ([], state\<lparr>response := (if truthy (get (response state)) then response state
                                     else Present (Some ''Sorry, I couldn't determine what to search for.'')),
                     search_results := Present (Some [])\<rparr>)"
  using assms by (cases "truthy (get (response state))") (simp_all add: search_meilisearch_node_def Let_def)

lemma search_answered:
  assumes "get (item_name state) = Some q" and "q \<noteq> []" and "get (intent state) \<noteq> Some ''error''"
    and "location state = Present loc"
    and "search env q (params_of state) = Some result"
  shows "search_meilisearch_node env state =
           ([Search q (params_of state)],
            state\<lparr>search_results := Present (Some (hits_of result)),
                  response := Present (Some
                    (if hits_of result = [] then
                       ''I couldn't find any '' @ quoted q
                         @ (if truthy loc then '' in '' @ py_format loc @ ''.'' else ''.'')
                     else
                       ''Found these results for '' @ quoted q
                         @ (if truthy loc then '' in '' @ py_format loc else [])
                         @ '':'' @ [CHR 0x0A]
                         @ join [CHR 0x0A] (map (format_hit (json_str env)) (take 3 (hits_of result)))))\<rparr>)"
  using assms
  by (simp add: search_meilisearch_node_def Let_def params_of_def [symmetric] hits_of_def [symmetric]
      truthy_simps py_format_def item_simps)

lemma format_hit_shows:
  assumes "map_of hit k = Some v" and "k \<in> {''name'', ''price'', ''currency'', ''vendor''}"
  shows "sublist (str v) (format_hit str hit)"
proof -
  have n: "sublist x (''- '' @ x @ r)" for x r :: string
    by (rule sublist_appendI)
  have p: "sublist x (''- '' @ a @ '' ('' @ x @ r)" for x a r :: string
    using sublist_appendI [of x "''- '' @ a @ '' (''" r] by simp
  have c: "sublist x (''- '' @ a @ '' ('' @ b @ '' '' @ x @ r)" for x a b r :: string
    using sublist_appendI [of x "''- '' @ a @ '' ('' @ b @ '' ''" r] by simp
  have w: "sublist x (''- '' @ a @ '' ('' @ b @ '' '' @ d @ '', Vendor: '' @ x @ r)" for x a b d r :: string
    using sublist_appendI [of x "''- '' @ a @ '' ('' @ b @ '' '' @ d @ '', Vendor: ''" r] by simp
  from assms(2) consider "k = ''name''" | "k = ''price''" | "k = ''currency''" | "k = ''vendor''"
    by auto
  then show ?thesis
  proof cases
    case 1 with assms(1) n show ?thesis by (simp add: format_hit_def hit_get_def)
  next
    case 2 with assms(1) p show ?thesis by (simp add: format_hit_def hit_get_def)
  next
    case 3 with assms(1) c show ?thesis by (simp add: format_hit_def hit_get_def)
  next
    case 4 with assms(1) w show ?thesis by (simp add: format_hit_def hit_get_def)
  qed
qed

lemma ingestion_branch_calls:
  "Search q p \<notin> set (fst (ingestion_branch env state))"
  by (simp add: ingestion_branch_def add_product_to_meili_node_def Let_def
      split: option.splits)

lemma search_calls:
  "fst (search_meilisearch_node env state) =
     (if \<not> truthy (get (item_name state)) \<or> get (intent state) = Some ''error'' then []
      else [Search (py_format (get (item_name state))) (params_of state)])"
  by (simp add: search_meilisearch_node_def Let_def params_of_def item_def
      split: option.splits entry.splits)

lemma invoke_search_run:
  assumes "invoke env state = (calls, Inr final)" and "Search q params \<in> set calls"
  shows "\<exists>state1 loc. final = snd (search_meilisearch_node env state1)
           \<and> get (item_name state1) = Some q \<and> q \<noteq> [] \<and> params = params_of state1
           \<and> get (intent state1) \<noteq> Some ''error'' \<and> location state1 = Present loc"
proof -
  obtain c1 r where a0: "analyze_intent_node env state = (c1, r)" by (cases "analyze_intent_node env state")
  with assms(1) invoke_raises [of env state c1] obtain s1 where
    a: "analyze_intent_node env state = (c1, Inr s1)" by (cases r) auto
  from analyze_summary [OF a] obtain i where
    A: "c1 = [] \<or> c1 = [LLMInvoke (prompt_of state)]" "intent s1 = Present (Some i)"
       "i = ''query_product'' \<or> i = ''ingest_product'' \<longrightarrow> response s1 = response state \<and> location s1 \<noteq> Absent"
    by (elim conjE exE) simp
  from A(1) have c1: "Search q params \<notin> set c1" by auto
  let ?d = "fst (route_after_intent_analysis s1)"
  note inv = invoke_routes [OF a]
  show ?thesis
  proof (cases ?d)
    case END
    with inv assms c1 show ?thesis by simp
  next
    case structure_ingestion_data
    with inv assms c1 ingestion_branch_calls [of q params env s1] show ?thesis by auto
  next
    case search_meili
    then have i: "i = ''query_product''" and t: "truthy (get (item_name s1))"
      by (simp_all add: route_decision A(2) get_simps split: if_splits)
    from search_meili inv assms(1)
    have f: "final = snd (search_meilisearch_node env s1)"
      and c: "calls = c1 @ fst (search_meilisearch_node env s1)" by simp_all
    from t obtain q' where q': "get (item_name s1) = Some q'" "q' \<noteq> []"
      by (cases "get (item_name s1)") (simp_all add: truthy_simps)
    have e: "get (intent s1) \<noteq> Some ''error''" by (simp add: A(2) get_simps i)
    from c assms(2) c1 have "Search q params \<in> set (fst (search_meilisearch_node env s1))" by simp
    then have "q = q'" "params = params_of s1"
      using t e q' by (simp_all add: search_calls py_format_def)
    moreover from A(3) i obtain loc where "location s1 = Present loc"
      by (cases "location s1") simp_all
    ultimately show ?thesis using f q' e by auto
  qed
qed

section \<open>The sample inputs, evaluated\<close>

lemma sample_states:
  "intent unanswered_greeting = Present (Some ''greeting'')"
  "response unanswered_greeting = Present None"
  "intent itemless_query = Present (Some ''query_product'')"
  "response itemless_query = Present None"
  "item_name itemless_query = Present None"
  by (simp_all add: unanswered_greeting_def itemless_query_def state_of_def initial_state_fields)

lemma state_of_image_message:
  "incoming_media_id (state_of image_message) = Present (Some ''9001'')"
  "incoming_text (state_of image_message) = Present None"
  "incoming_message_type (state_of image_message) = Present (Some ''image'')"
  "item_name (state_of image_message) = Present None"
  "description (state_of image_message) = Present None"
  "currency (state_of image_message) = Present None"
  "sender_id (state_of image_message) = Present (Some ''256700000001'')"
  by (simp_all add: state_of_def initial_state_def image_message_def first_media_def sample_env_def
      Let_def truthy_simps)

lemma state_of_text_message:
  "incoming_media_id (state_of text_message) = Present None"
  "incoming_text (state_of text_message) = Present (Some ''iphone price'')"
  "item_name (state_of text_message) = Present None"
  by (simp_all add: state_of_def initial_state_def text_message_def first_media_def sample_env_def
      Let_def truthy_simps)

lemma state_of_empty_message:
  "incoming_media_id (state_of empty_message) = Present None"
  "incoming_text (state_of empty_message) = Present None"
  "item_name (state_of empty_message) = Present None"
  "response (state_of empty_message) = Present None"
  by (simp_all add: state_of_def initial_state_def empty_message_def first_media_def sample_env_def
      Let_def truthy_simps)

lemma nameless_image_analysed_fields:
  "intent nameless_image_analysed = Present (Some ''ingest_product'')"
  "item_name nameless_image_analysed = Present None"
  "description nameless_image_analysed = Present (Some [])"
  by (simp_all add: nameless_image_analysed_def apply_analysis_intent apply_analysis_keys
      apply_analysis_entities nameless_analysis_def truthy_simps)

section \<open>The claims\<close>

subsection \<open>C1: every run ends with a response\<close>

text \<open>
  Every message is answered by a completed run: the entry state binds every key, so no
  step raises. A completed run ends in one of three ways: with a non-empty response and no
  task; with the task \<open>enqueued\<close> and the response still \<open>None\<close>, after a successful
  catalogue write; or with neither a response nor a task, when the router ended the run for
  a query without an item or for an intent it does not know, since what the router assigns
  is not kept.
\<close>

lemma handle_response_cases:
  "\<exists>calls final. handle_incoming_message env msg = (calls, Some final)
     \<and> ((truthy (get (response final)) \<and> meili_task_status final = Present None)
        \<or> (response final = Present None
           \<and> meili_task_status final = Present (Some ''enqueued'')
           \<and> intent final = Present (Some ''ingest_product'')
           \<and> (\<exists>pd. AddDocuments [pd] \<in> set calls))
        \<or> (response final = Present None \<and> meili_task_status final = Present None
           \<and> fst (route_after_intent_analysis final) = END
           \<and> get (intent final) \<noteq> Some ''greeting'' \<and> get (intent final) \<noteq> Some ''unknown''))"
proof -
  let ?c0 = "fst (initial_state env msg)" and ?s0 = "snd (initial_state env msg)"
  have "item_name ?s0 \<noteq> Absent" by (simp add: initial_state_fields)
  from invoke_total [OF this, of env] obtain calls final where
    i: "invoke env ?s0 = (calls, Inr final)" by (elim exE)
  then have h: "handle_incoming_message env msg = (?c0 @ calls, Some final)"
    by (cases "initial_state env msg") (simp add: handle_incoming_message_def)
  from invoke_response_cases [OF i initial_state_fields(1) initial_state_fields(2)]
  show ?thesis unfolding h by (elim disjE conjE exE) auto
qed

text \<open>
  C1. The source does not do what the claim says. Whenever a run ends with an enqueued
  task, that is after the Catalog Writer has submitted the document and read a task
  identifier from the answer, the final response is \<open>None\<close>: the Catalog Writer sets no
  response on that path (``No immediate response here, polling node will handle
  confirmation''), the graph goes from it to the end, and no polling or confirmation step
  is in the graph. Nothing substitutes an apology at the end of a run either.
\<close>

theorem enqueued_run_has_no_response:
  assumes "handle_incoming_message env msg = (calls, Some final)"
    and "meili_task_status final = Present (Some ''enqueued'')"
  shows "response final = Present None
       \<and> \<not> truthy (get (response final))
       \<and> intent final = Present (Some ''ingest_product'')
       \<and> (\<exists>pd. AddDocuments [pd] \<in> set calls)"
proof -
  from handle_response_cases [of env msg] assms(1)
  have "(truthy (get (response final)) \<and> meili_task_status final = Present None)
        \<or> (response final = Present None
           \<and> meili_task_status final = Present (Some ''enqueued'')
           \<and> intent final = Present (Some ''ingest_product'')
           \<and> (\<exists>pd. AddDocuments [pd] \<in> set calls))
        \<or> (response final = Present None \<and> meili_task_status final = Present None
           \<and> fst (route_after_intent_analysis final) = END
           \<and> get (intent final) \<noteq> Some ''greeting'' \<and> get (intent final) \<noteq> Some ''unknown'')"
    by (elim exE conjE) simp
  with assms(2) show ?thesis by (auto simp: get_simps truthy_simps)
qed

text \<open>
  Such a run: an image without a caption, a classifier that names the item and a backend
  that accepts the document.
\<close>

theorem enqueued_run_has_no_response_witness:
  "\<exists>calls final. handle_incoming_message sample_env image_message = (calls, Some final)
     \<and> meili_task_status final = Present (Some ''enqueued'')
     \<and> response final = Present None
     \<and> \<not> truthy (get (response final))"
proof -
  from handle_response_cases [of sample_env image_message] obtain calls final where
    h: "handle_incoming_message sample_env image_message = (calls, Some final)"
    by (elim exE conjE)
  have "map_option meili_task_status (snd (handle_incoming_message sample_env image_message))
          = Some (Present (Some ''enqueued''))"
    by (simp add: handle_incoming_message_def initial_state_def image_message_def first_media_def
      sample_env_def sample_analysis_def invoke_def analyze_intent_node_def apply_analysis_def
      route_after_intent_analysis_def ingestion_branch_def structure_ingestion_data_node_def
      add_product_to_meili_node_def Let_def get_simps truthy_simps is_in_simps query_intents_def
      ingest_intents_def item_simps get_default_def hasattr_def getattr_def)
  with h have s: "meili_task_status final = Present (Some ''enqueued'')" by simp
  from enqueued_run_has_no_response [OF h s]
  have "response final = Present None" "\<not> truthy (get (response final))"
    by (simp_all add: get_simps truthy_simps)
  with h s show ?thesis by (intro exI conjI)
qed

text \<open>
  The same run, evaluated: the response is \<open>None\<close> and the task is enqueued.
\<close>

lemma uncaptioned_image_run_leaves_response_unset:
  "map_option response (snd (handle_incoming_message sample_env image_message)) = Some (Present None)
   \<and> map_option meili_task_status (snd (handle_incoming_message sample_env image_message))
       = Some (Present (Some ''enqueued''))"
  by (simp add: handle_incoming_message_def initial_state_def image_message_def first_media_def
      sample_env_def sample_analysis_def invoke_def analyze_intent_node_def apply_analysis_def
      route_after_intent_analysis_def ingestion_branch_def structure_ingestion_data_node_def
      add_product_to_meili_node_def Let_def get_simps truthy_simps is_in_simps query_intents_def
      ingest_intents_def item_simps get_default_def hasattr_def getattr_def)

text \<open>
  A run of the third kind: a text message in which the classifier sees a product query
  without an item. The router returns the end; the sentence it assigns is not kept, and
  the run ends with no response and no task.
\<close>

lemma itemless_query_run_leaves_response_unset:
  "map_option response (snd (handle_incoming_message itemless_env text_message)) = Some (Present None)
   \<and> map_option meili_task_status (snd (handle_incoming_message itemless_env text_message))
       = Some (Present None)"
  by (simp add: handle_incoming_message_def initial_state_def text_message_def first_media_def
      itemless_env_def itemless_analysis_def
      sample_env_def sample_analysis_def invoke_def analyze_intent_node_def apply_analysis_def
      route_after_intent_analysis_def Let_def get_simps truthy_simps is_in_simps query_intents_def
      ingest_intents_def item_simps)

subsection \<open>C2: a response that is set is not replaced\<close>

text \<open>
  C2. The source replaces a response on one path. When the item name and the description
  are both missing, the Ingestion Structurer sets its own message; the Catalog Writer runs
  next, finds no product and sets another message over it. The router and the guard of the
  search step test \<open>not state.get('response')\<close> before they write; this branch of the
  Catalog Writer does not.
\<close>

theorem writer_replaces_structurer_response:
  assumes "\<not> truthy (get (item_name state))" and "\<not> truthy (get (description state))"
  shows "response (structure_ingestion_data_node env state)
           = Present (Some ''Missing product name/description for ingestion.'')
       \<and> response (snd (ingestion_branch env state))
           = Present (Some ''Error: Could not structure product data for storage.'')"
  by (simp add: structure_missing_fields [OF assms] ingestion_branch_missing_fields [OF assms])

theorem writer_replaces_structurer_response_witness:
  "\<not> truthy (get (item_name (state_of image_message)))
   \<and> \<not> truthy (get (description (state_of image_message)))
   \<and> response (structure_ingestion_data_node sample_env (state_of image_message))
       = Present (Some ''Missing product name/description for ingestion.'')
   \<and> response (snd (ingestion_branch sample_env (state_of image_message)))
       = Present (Some ''Error: Could not structure product data for storage.'')"
proof -
  have n: "\<not> truthy (get (item_name (state_of image_message)))"
    and d: "\<not> truthy (get (description (state_of image_message)))"
    by (simp_all add: state_of_image_message get_simps truthy_simps)
  from writer_replaces_structurer_response [OF n d, of sample_env] n d show ?thesis
    by (intro conjI) simp_all
qed

text \<open>
  A run that does so: an image without a caption, for which the classifier extracts no
  item name.
\<close>

lemma uncaptioned_nameless_image_run:
  "map_option response (snd (handle_incoming_message nameless_env image_message))
     = Some (Present (Some ''Error: Could not structure product data for storage.''))"
  by (simp add: handle_incoming_message_def initial_state_def image_message_def first_media_def
      nameless_env_def nameless_analysis_def
      sample_env_def sample_analysis_def invoke_def analyze_intent_node_def apply_analysis_def
      route_after_intent_analysis_def ingestion_branch_def structure_ingestion_data_node_def
      add_product_to_meili_node_def Let_def get_simps truthy_simps is_in_simps query_intents_def
      ingest_intents_def item_simps get_default_def hasattr_def getattr_def)

subsection \<open>C3: media forces the ingestion intent\<close>

text \<open>
  When the classifier call raises, the step sets the intent to \<open>error\<close>, with or without
  media; the claim is about what the classifier returns.
\<close>

lemma classifier_failure_sets_error:
  assumes "truthy (get (incoming_text state)) \<or> truthy (get (incoming_media_id state))"
    and "llm_invoke env (prompt_of state) = None" and "item_name state = Present v"
  shows "\<exists>state'. analyze_intent_node env state = ([LLMInvoke (prompt_of state)], Inr state')
           \<and> intent state' = Present (Some ''error'') \<and> truthy (get (response state'))"
  using analyze_llm_fail [OF assms(1,2)] assms(3) by (simp add: get_simps truthy_simps)

text \<open>
  C3. For a state with a media identifier the classification step calls the classifier
  exactly once, with a prompt that ends in the quoted text of the message, which is the
  empty string when there is no caption; and whatever analysis the classifier returns, the
  step ends with the intent \<open>ingest_product\<close> and with the item name, the price and the
  currency of that analysis.
\<close>

theorem media_forces_ingest:
  assumes "truthy (get (incoming_media_id state))"
  shows "fst (analyze_intent_node env state) = [LLMInvoke (prompt_of state)]
       \<and> (\<exists>guidance. prompt_of state = guidance @ ''Text Content: '' @ quoted (py_format (caption_of state)))
       \<and> (truthy (get (incoming_text state)) \<or> caption_of state = Some [])
       \<and> (\<forall>a. llm_invoke env (prompt_of state) = Some a \<longrightarrow>
            (\<exists>state'. snd (analyze_intent_node env state) = Inr state'
               \<and> intent state' = Present (Some ''ingest_product'')
               \<and> item_name state' = Present (QueryAnalysis.item_name a)
               \<and> price state' = Present (QueryAnalysis.price a)
               \<and> currency state' = Present (QueryAnalysis.currency a)))"
proof -
  have c: "fst (analyze_intent_node env state) = [LLMInvoke (prompt_of state)]"
    using assms by (simp add: analyze_calls)
  have p: "\<exists>guidance. prompt_of state = guidance @ ''Text Content: '' @ quoted (py_format (caption_of state))"
    unfolding prompt_of_def build_prompt_def by (metis append.assoc)
  have t: "truthy (get (incoming_text state)) \<or> caption_of state = Some []"
    using assms by (simp add: caption_of_def)
  have l: "\<exists>state'. snd (analyze_intent_node env state) = Inr state'
               \<and> intent state' = Present (Some ''ingest_product'')
               \<and> item_name state' = Present (QueryAnalysis.item_name a)
               \<and> price state' = Present (QueryAnalysis.price a)
               \<and> currency state' = Present (QueryAnalysis.currency a)"
    if "llm_invoke env (prompt_of state) = Some a" for a
  proof -
    from assms have "truthy (get (incoming_text state)) \<or> truthy (get (incoming_media_id state))" by simp
    from analyze_llm_ok [OF this that] assms show ?thesis
      by (simp add: apply_analysis_intent apply_analysis_keys apply_analysis_entities)
  qed
  from c p t l show ?thesis by (intro conjI allI impI)
qed

theorem media_forces_ingest_witness:
  "truthy (get (incoming_media_id (state_of image_message)))
   \<and> fst (analyze_intent_node sample_env (state_of image_message))
       = [LLMInvoke (prompt_of (state_of image_message))]
   \<and> caption_of (state_of image_message) = Some []
   \<and> QueryAnalysis.intent sample_analysis = ''query_product''
   \<and> (\<exists>state'. snd (analyze_intent_node sample_env (state_of image_message)) = Inr state'
         \<and> intent state' = Present (Some ''ingest_product'')
         \<and> item_name state' = Present (Some ''iphone''))"
proof -
  have m: "truthy (get (incoming_media_id (state_of image_message)))"
    by (simp add: state_of_image_message get_simps truthy_simps)
  have t: "\<not> truthy (get (incoming_text (state_of image_message)))"
    by (simp add: state_of_image_message get_simps truthy_simps)
  have l: "llm_invoke sample_env (prompt_of (state_of image_message)) = Some sample_analysis"
    by (simp add: sample_env_def)
  have s: "QueryAnalysis.intent sample_analysis = ''query_product''"
    "QueryAnalysis.item_name sample_analysis = Some ''iphone''"
    by (simp_all add: sample_analysis_def)
  from media_forces_ingest [OF m, of sample_env] t l s m show ?thesis
    by (elim conjE) auto
qed

subsection \<open>C4: no write without a name or a description\<close>

text \<open>
  C4. Take a run whose classification step succeeds and whose router chooses the
  ingestion branch, with neither an item name nor a description in the state. Then the
  Ingestion Structurer sets a response and no product, the run completes with no product
  and a non-empty response, and the calls of the run are those of the classification step:
  \<open>add_documents\<close> is not among them.
\<close>

theorem missing_fields_abort_ingestion:
  assumes "analyze_intent_node env state = (calls, Inr state1)"
    and "fst (route_after_intent_analysis state1) = structure_ingestion_data"
    and "\<not> truthy (get (item_name state1))" and "\<not> truthy (get (description state1))"
  shows "structure_ingestion_data_node env state1 =
           state1\<lparr>response := Present (Some ''Missing product name/description for ingestion.''),
                  product_to_ingest := Present None\<rparr>
       \<and> (\<exists>final. invoke env state = (calls, Inr final)
              \<and> product_to_ingest final = Present None
              \<and> truthy (get (response final)))
       \<and> (\<forall>docs. AddDocuments docs \<notin> set calls)"
proof -
  let ?s2 = "snd (route_after_intent_analysis state1)"
  have i: "get (intent state1) = Some ''ingest_product''"
    using assms(2) by (simp add: route_decision split: if_splits)
  have "response ?s2 = response state1" by (simp add: route_response i)
  with route_frame [of state1] have s2: "?s2 = state1" by simp
  have b: "ingestion_branch env state1 =
           ([], state1\<lparr>response := Present (Some ''Error: Could not structure product data for storage.''),
                     product_to_ingest := Present None\<rparr>)"
    by (rule ingestion_branch_missing_fields [OF assms(3,4)])
  have "invoke env state = (calls, Inr (snd (ingestion_branch env state1)))"
    using invoke_routes [OF assms(1)] assms(2) s2 b by simp
  moreover have "calls = [] \<or> calls = [LLMInvoke (prompt_of state)]"
    using analyze_summary [OF assms(1)] by (elim conjE)
  ultimately show ?thesis
    using structure_missing_fields [OF assms(3,4), of env] b
    by (auto simp: get_simps truthy_simps)
qed

theorem missing_fields_abort_ingestion_witness:
  "analyze_intent_node nameless_env (state_of image_message)
     = ([LLMInvoke (prompt_of (state_of image_message))], Inr nameless_image_analysed)
   \<and> fst (route_after_intent_analysis nameless_image_analysed) = structure_ingestion_data
   \<and> \<not> truthy (get (item_name nameless_image_analysed))
   \<and> \<not> truthy (get (description nameless_image_analysed))
   \<and> (\<exists>final. invoke nameless_env (state_of image_message)
                  = ([LLMInvoke (prompt_of (state_of image_message))], Inr final)
         \<and> product_to_ingest final = Present None
         \<and> truthy (get (response final)))"
proof -
  have "truthy (get (incoming_text (state_of image_message)))
          \<or> truthy (get (incoming_media_id (state_of image_message)))"
    by (simp add: state_of_image_message get_simps truthy_simps)
  moreover have "llm_invoke nameless_env (prompt_of (state_of image_message)) = Some nameless_analysis"
    by (simp add: nameless_env_def)
  ultimately have "analyze_intent_node nameless_env (state_of image_message)
     = ([LLMInvoke (prompt_of (state_of image_message))],
        Inr (apply_analysis nameless_analysis (get (incoming_media_id (state_of image_message)))
               (caption_of (state_of image_message)) (forced (state_of image_message))))"
    by (rule analyze_llm_ok)
  then have a: "analyze_intent_node nameless_env (state_of image_message)
     = ([LLMInvoke (prompt_of (state_of image_message))], Inr nameless_image_analysed)"
    by (simp add: nameless_image_analysed_def caption_of_def state_of_image_message get_simps truthy_simps)
  have r: "fst (route_after_intent_analysis nameless_image_analysed) = structure_ingestion_data"
    by (simp add: route_decision nameless_image_analysed_fields get_simps)
  have n: "\<not> truthy (get (item_name nameless_image_analysed))"
    and d: "\<not> truthy (get (description nameless_image_analysed))"
    by (simp_all add: nameless_image_analysed_fields get_simps truthy_simps)
  from missing_fields_abort_ingestion [OF a r n d] a r n d show ?thesis
    by (intro conjI) simp_all
qed

subsection \<open>C5: the default currency\<close>

text \<open>
  C5. The Ingestion Structurer reads the currency with \<open>state.get('currency', "UGX")\<close>:
  the default code is used when the key is missing, and a key bound to \<open>None\<close> yields
  \<open>None\<close>. The entry point binds the key to \<open>None\<close> and the classification step
  binds it to what the classifier extracted, so in a run without a stated currency the
  product carries \<open>None\<close> and not the default code.
\<close>

theorem currency_of_structured_product:
  assumes "truthy (get (item_name state)) \<or> truthy (get (description state))"
  shows "\<exists>pd. product_to_ingest (structure_ingestion_data_node env state) = Present (Some pd)
           \<and> map_of pd ''currency'' =
               Some (case currency state of
                       Absent \<Rightarrow> PStr ''UGX''
                     | Present None \<Rightarrow> PNone
                     | Present (Some c) \<Rightarrow> PStr c)"
  using assms
  by (auto simp: structure_ingestion_data_node_def Let_def get_default_def of_str_def
      split: entry.splits option.splits)

theorem currency_of_structured_product_witness:
  "truthy (get (item_name named_image_state))
   \<and> currency named_image_state = Present None
   \<and> (\<exists>pd. product_to_ingest (structure_ingestion_data_node sample_env named_image_state)
              = Present (Some pd)
         \<and> map_of pd ''currency'' = Some PNone)"
proof -
  have t: "truthy (get (item_name named_image_state))"
    by (simp add: named_image_state_def get_simps truthy_simps)
  then have h: "truthy (get (item_name named_image_state)) \<or> truthy (get (description named_image_state))"
    by simp
  have c: "currency named_image_state = Present None"
    by (simp add: named_image_state_def state_of_image_message)
  from currency_of_structured_product [OF h, of sample_env] t c show ?thesis by simp
qed

text \<open>The product of the run on the image message of the samples.\<close>

lemma uncaptioned_image_run_product:
  "map_option product_to_ingest (snd (handle_incoming_message sample_env image_message))
     = Some (Present (Some
         [(''id'', PStr ''6f1c2a9e''), (''name'', PStr ''iphone''), (''description'', PStr []),
          (''price'', PNone), (''currency'', PNone), (''category'', PStr ''Unknown''),
          (''vendor'', PStr ''256700000001''), (''media_path'', PNone)]))"
  by (simp add: handle_incoming_message_def initial_state_def image_message_def first_media_def
      sample_env_def sample_analysis_def invoke_def analyze_intent_node_def apply_analysis_def
      route_after_intent_analysis_def ingestion_branch_def structure_ingestion_data_node_def
      add_product_to_meili_node_def Let_def get_simps truthy_simps is_in_simps query_intents_def
      ingest_intents_def item_simps get_default_def hasattr_def getattr_def of_str_def of_float_def
      or_else_def)

subsection \<open>C6: the outcomes of the Catalog Writer\<close>

text \<open>
  C6. For a state that holds a product document, the Catalog Writer submits it once. If
  the submission raises, or if the answer is neither an object with a \<open>task_uid\<close>
  attribute nor a dictionary with a \<open>taskUid\<close> key, the step changes the response only,
  to an error message: the task identifier and the task status stay as they were. Otherwise
  the task status is \<open>enqueued\<close>, the task identifier is bound to a value, and the
  response stays as it was.
\<close>

theorem writer_outcomes:
  assumes "get (product_to_ingest state) = Some pd" and "pd \<noteq> []" and "map_of pd ''id'' = Some i"
  shows "fst (add_product_to_meili_node env state) = [AddDocuments [pd]]
       \<and> (add_documents env [pd] = None \<longrightarrow>
            snd (add_product_to_meili_node env state) =
              state\<lparr>response := Present (Some ''Sorry, there was an error adding the product to the catalog.'')\<rparr>)
       \<and> (\<forall>t. add_documents env [pd] = Some t
              \<and> \<not> hasattr t ''task_uid'' \<and> \<not> (isinstance_dict t \<and> dict_lookup t ''taskUid'' \<noteq> None) \<longrightarrow>
            snd (add_product_to_meili_node env state) =
              state\<lparr>response := Present (Some ''Error: Failed to get task ID after submitting product.'')\<rparr>)
       \<and> (\<forall>t. add_documents env [pd] = Some t
              \<and> (hasattr t ''task_uid'' \<or> (isinstance_dict t \<and> dict_lookup t ''taskUid'' \<noteq> None)) \<longrightarrow>
            meili_task_status (snd (add_product_to_meili_node env state)) = Present (Some ''enqueued'')
            \<and> meili_task_id (snd (add_product_to_meili_node env state)) \<noteq> Present None
            \<and> meili_task_id (snd (add_product_to_meili_node env state)) \<noteq> Absent
            \<and> response (snd (add_product_to_meili_node env state)) = response state)"
proof (intro conjI allI impI)
  show "fst (add_product_to_meili_node env state) = [AddDocuments [pd]]"
  proof (cases "add_documents env [pd]")
    case None
    from writer_raises [OF assms None] show ?thesis by simp
  next
    case (Some t)
    show ?thesis
    proof (cases "hasattr t ''task_uid'' \<or> (isinstance_dict t \<and> dict_lookup t ''taskUid'' \<noteq> None)")
      case True
      from writer_enqueued [OF assms Some True] show ?thesis by simp
    next
      case False
      then have "\<not> hasattr t ''task_uid''" "\<not> (isinstance_dict t \<and> dict_lookup t ''taskUid'' \<noteq> None)"
        by simp_all
      from writer_unrecognised [OF assms Some this] show ?thesis by simp
    qed
  qed
next
  assume "add_documents env [pd] = None"
  from writer_raises [OF assms this]
  show "snd (add_product_to_meili_node env state) =
          state\<lparr>response := Present (Some ''Sorry, there was an error adding the product to the catalog.'')\<rparr>"
    by simp
next
  fix t
  assume "add_documents env [pd] = Some t
              \<and> \<not> hasattr t ''task_uid'' \<and> \<not> (isinstance_dict t \<and> dict_lookup t ''taskUid'' \<noteq> None)"
  then have "add_documents env [pd] = Some t" "\<not> hasattr t ''task_uid''"
    "\<not> (isinstance_dict t \<and> dict_lookup t ''taskUid'' \<noteq> None)" by simp_all
  from writer_unrecognised [OF assms this]
  show "snd (add_product_to_meili_node env state) =
          state\<lparr>response := Present (Some ''Error: Failed to get task ID after submitting product.'')\<rparr>"
    by simp
next
  fix t
  assume h: "add_documents env [pd] = Some t
              \<and> (hasattr t ''task_uid'' \<or> (isinstance_dict t \<and> dict_lookup t ''taskUid'' \<noteq> None))"
  then have a: "add_documents env [pd] = Some t"
    and b: "hasattr t ''task_uid'' \<or> (isinstance_dict t \<and> dict_lookup t ''taskUid'' \<noteq> None)"
    by simp_all
  note w = writer_enqueued [OF assms a b]
  show "meili_task_status (snd (add_product_to_meili_node env state)) = Present (Some ''enqueued'')"
    by (simp add: w)
  show "meili_task_id (snd (add_product_to_meili_node env state)) \<noteq> Present None"
    using b by (auto simp: w hasattr_def)
  show "meili_task_id (snd (add_product_to_meili_node env state)) \<noteq> Absent"
    by (simp add: w)
  show "response (snd (add_product_to_meili_node env state)) = response state"
    by (simp add: w)
qed

theorem writer_outcomes_witness:
  "get (product_to_ingest structured_image_state) = Some sample_product
   \<and> sample_product \<noteq> []
   \<and> map_of sample_product ''id'' = Some (PStr ''6f1c2a9e'')
   \<and> add_documents failing_env [sample_product] = None
   \<and> snd (add_product_to_meili_node failing_env structured_image_state) =
       structured_image_state\<lparr>response := Present (Some ''Sorry, there was an error adding the product to the catalog.'')\<rparr>
   \<and> add_documents sample_env [sample_product] = Some (Object [(''task_uid'', 7)])
   \<and> meili_task_status (snd (add_product_to_meili_node sample_env structured_image_state))
       = Present (Some ''enqueued'')
   \<and> response (snd (add_product_to_meili_node sample_env structured_image_state))
       = response structured_image_state"
proof -
  have p: "get (product_to_ingest structured_image_state) = Some sample_product"
    by (simp add: structured_image_state_def get_simps)
  have e: "sample_product \<noteq> []" by (simp add: sample_product_def)
  have i: "map_of sample_product ''id'' = Some (PStr ''6f1c2a9e'')" by (simp add: sample_product_def)
  have f: "add_documents failing_env [sample_product] = None" by (simp add: failing_env_def)
  have s: "add_documents sample_env [sample_product] = Some (Object [(''task_uid'', 7)])"
    by (simp add: sample_env_def)
  have h: "hasattr (Object [(''task_uid'', 7)]) ''task_uid''" by (simp add: hasattr_def getattr_def)
  from writer_outcomes [OF p e i, of failing_env] f
  have 1: "snd (add_product_to_meili_node failing_env structured_image_state) =
       structured_image_state\<lparr>response := Present (Some ''Sorry, there was an error adding the product to the catalog.'')\<rparr>"
    by (elim conjE) simp
  from writer_outcomes [OF p e i, of sample_env] s h
  have 2: "meili_task_status (snd (add_product_to_meili_node sample_env structured_image_state))
       = Present (Some ''enqueued'')"
    and 3: "response (snd (add_product_to_meili_node sample_env structured_image_state))
       = response structured_image_state"
    by (elim conjE, simp)+
  from p e i f s 1 2 3 show ?thesis by (intro conjI)
qed

subsection \<open>C7: no content, no classification\<close>

text \<open>
  C7. A state with neither text nor a media identifier: the classification step makes no
  call at all, so the classifier is never invoked; it sets the intent to \<open>error\<close> and the
  response to a fixed sentence, and the whole run ends there with that state and without
  any call.
\<close>

theorem no_content_short_circuit:
  assumes "\<not> truthy (get (incoming_text state))"
    and "\<not> truthy (get (incoming_media_id state))"
  shows "\<exists>state'. analyze_intent_node env state = ([], Inr state')
           \<and> state' = state\<lparr>intent := Present (Some ''error''),
                 response := Present (Some ''Sorry, I couldn't understand the message content. Please send text or media.'')\<rparr>
           \<and> invoke env state = ([], Inr state')"
proof -
  let ?s = "state\<lparr>intent := Present (Some ''error''),
                 response := Present (Some ''Sorry, I couldn't understand the message content. Please send text or media.'')\<rparr>"
  have a: "analyze_intent_node env state = ([], Inr ?s)"
    using assms by (simp add: analyze_intent_node_def Let_def)
  have r: "route_after_intent_analysis ?s = (END, ?s)"
    by (simp add: route_after_intent_analysis_def Let_def get_simps truthy_simps is_in_simps
        query_intents_def ingest_intents_def)
  show ?thesis using a r by (simp add: invoke_def)
qed

theorem no_content_short_circuit_witness:
  "\<not> truthy (get (incoming_text (state_of empty_message)))
   \<and> \<not> truthy (get (incoming_media_id (state_of empty_message)))
   \<and> invoke sample_env (state_of empty_message) =
       ([], Inr ((state_of empty_message)\<lparr>intent := Present (Some ''error''),
                 response := Present (Some ''Sorry, I couldn't understand the message content. Please send text or media.'')\<rparr>))"
proof -
  have t: "\<not> truthy (get (incoming_text (state_of empty_message)))"
    by (simp add: state_of_def initial_state_def empty_message_def first_media_def
        Let_def get_simps truthy_simps)
  have m: "\<not> truthy (get (incoming_media_id (state_of empty_message)))"
    by (simp add: state_of_def initial_state_def empty_message_def first_media_def
        Let_def get_simps truthy_simps)
  from no_content_short_circuit [OF t m, of sample_env] t m show ?thesis by auto
qed

subsection \<open>C8: the router\<close>

text \<open>
  C8 (amended). The decision of the router is the decision table: it depends on the intent
  and on whether an item name is present, and on nothing else. The router leaves the state
  as it is, except that on a terminal decision it may bind a missing response. It does bind
  one on the terminal decisions for a query without an item and for an error or an
  unexpected intent; for the intents \<open>greeting\<close> and \<open>unknown\<close> it returns the state
  unchanged, whether a response is set or not. In a run, the response of those two intents
  has been set by the classification step: every state that the classification step
  produces and the router ends leaves the router with a response.
\<close>

theorem router_fills_only_missing_response:
  "fst (route_after_intent_analysis state) =
     (if get (intent state) = Some ''query_product'' then
        (if truthy (get (item_name state)) then search_meili else END)
      else if get (intent state) = Some ''ingest_product'' then structure_ingestion_data
      else END)
   \<and> (snd (route_after_intent_analysis state) = state
      \<or> (fst (route_after_intent_analysis state) = END
         \<and> \<not> truthy (get (response state))
         \<and> truthy (get (response (snd (route_after_intent_analysis state))))
         \<and> snd (route_after_intent_analysis state) =
             state\<lparr>response := response (snd (route_after_intent_analysis state))\<rparr>))
   \<and> (fst (route_after_intent_analysis state) = END
        \<and> get (intent state) \<noteq> Some ''greeting'' \<and> get (intent state) \<noteq> Some ''unknown''
      \<longrightarrow> truthy (get (response (snd (route_after_intent_analysis state)))))
   \<and> (get (intent state) = Some ''greeting'' \<or> get (intent state) = Some ''unknown''
      \<longrightarrow> route_after_intent_analysis state = (END, state))
   \<and> (\<forall>env state0 calls.
        analyze_intent_node env state0 = (calls, Inr state)
        \<and> fst (route_after_intent_analysis state) = END
      \<longrightarrow> truthy (get (response (snd (route_after_intent_analysis state)))))"
proof (intro conjI allI impI)
  let ?r = "route_after_intent_analysis state"
  show "fst ?r = (if get (intent state) = Some ''query_product'' then
        (if truthy (get (item_name state)) then search_meili else END)
      else if get (intent state) = Some ''ingest_product'' then structure_ingestion_data
      else END)"
    by (rule route_decision)
  show "snd ?r = state
      \<or> (fst ?r = END \<and> \<not> truthy (get (response state)) \<and> truthy (get (response (snd ?r)))
         \<and> snd ?r = state\<lparr>response := response (snd ?r)\<rparr>)"
  proof (cases "response (snd ?r) = response state")
    case True
    with route_frame [of state] show ?thesis by simp
  next
    case False
    then have "fst ?r = END" "\<not> truthy (get (response state))" "truthy (get (response (snd ?r)))"
      by (simp_all add: route_response route_decision get_simps truthy_simps split: if_splits)
    with route_frame [of state] show ?thesis by simp
  qed
  show "truthy (get (response (snd ?r)))"
    if "fst ?r = END \<and> get (intent state) \<noteq> Some ''greeting'' \<and> get (intent state) \<noteq> Some ''unknown''"
    using that by (simp add: route_response route_decision get_simps truthy_simps split: if_splits)
  show "?r = (END, state)"
    if h: "get (intent state) = Some ''greeting'' \<or> get (intent state) = Some ''unknown''"
  proof -
    from h have "fst ?r = END" by (auto simp: route_decision)
    moreover from h have "response (snd ?r) = response state" by (auto simp: route_response)
    with route_frame [of state] have "snd ?r = state" by simp
    ultimately show ?thesis by (simp add: prod_eq_iff)
  qed
  show "truthy (get (response (snd ?r)))"
    if h: "analyze_intent_node env state0 = (calls, Inr state) \<and> fst ?r = END" for env and state0 calls
  proof -
    from h have a: "analyze_intent_node env state0 = (calls, Inr state)" and e: "fst ?r = END" by simp_all
    from analyze_summary [OF a] obtain i where
      A: "intent state = Present (Some i)"
         "i = ''greeting'' \<or> i = ''unknown'' \<longrightarrow> truthy (get (response state))"
      by (elim conjE exE) simp
    from e A show ?thesis
      by (simp add: route_response route_decision get_simps truthy_simps split: if_splits)
  qed
qed

theorem router_fills_only_missing_response_witness:
  "fst (route_after_intent_analysis itemless_query) = END
   \<and> \<not> truthy (get (response itemless_query))
   \<and> truthy (get (response (snd (route_after_intent_analysis itemless_query))))
   \<and> snd (route_after_intent_analysis itemless_query) =
       itemless_query\<lparr>response := response (snd (route_after_intent_analysis itemless_query))\<rparr>"
proof -
  note t = router_fills_only_missing_response [of itemless_query]
  from t have 1: "fst (route_after_intent_analysis itemless_query) = END"
    by (elim conjE) (simp add: sample_states get_simps truthy_simps)
  have 2: "\<not> truthy (get (response itemless_query))"
    by (simp add: sample_states get_simps truthy_simps)
  from t 1 have 3: "truthy (get (response (snd (route_after_intent_analysis itemless_query))))"
    by (elim conjE) (simp add: sample_states get_simps)
  from t 3 2 have 4: "snd (route_after_intent_analysis itemless_query) =
       itemless_query\<lparr>response := response (snd (route_after_intent_analysis itemless_query))\<rparr>"
    by (elim conjE disjE) simp_all
  from 1 2 3 4 show ?thesis by (intro conjI)
qed

text \<open>
  The claim as it is written fails for a state with the intent \<open>greeting\<close> and no
  response: the router ends the run and the response is still missing.
\<close>

theorem router_leaves_greeting_unanswered:
  "fst (route_after_intent_analysis unanswered_greeting) = END
   \<and> \<not> truthy (get (response unanswered_greeting))
   \<and> \<not> truthy (get (response (snd (route_after_intent_analysis unanswered_greeting))))"
  by (simp add: route_decision route_response sample_states get_simps truthy_simps)

subsection \<open>C9: the reply of the search step\<close>

text \<open>
  What \<open>join\<close> gives on short lists, that every member of the list is part of the joined
  text, and the four shapes of a list of hits that the reply distinguishes.
\<close>

lemma join_simps:
  "join sep [] = []"
  "join sep [a] = a"
  "join sep [a, b] = a @ sep @ b"
  "join sep (a # b # c # []) = a @ sep @ b @ sep @ c"
  by (simp_all add: join_def)

lemma join_sublist:
  assumes "x \<in> set xs"
  shows "sublist x (join sep xs)"
proof (cases xs)
  case Nil
  with assms show ?thesis by simp
next
  case (Cons y ys)
  show ?thesis
  proof (cases "x = y")
    case True
    with Cons show ?thesis by (simp add: join_def)
  next
    case False
    with assms Cons have "x \<in> set ys" by simp
    then obtain as bs where "ys = as @ x # bs" by (auto dest: split_list)
    then have "join sep xs = (y @ concat (map (\<lambda>z. sep @ z) as) @ sep) @ x @ concat (map (\<lambda>z. sep @ z) bs)"
      by (simp add: Cons join_def)
    then show ?thesis by (simp only: sublist_appendI)
  qed
qed

lemma upto_three_cases:
  "xs = [] \<or> (\<exists>a. xs = [a]) \<or> (\<exists>a b. xs = [a, b]) \<or> (\<exists>a b c r. xs = a # b # c # r)"
proof (cases xs)
  case Nil
  then show ?thesis by simp
next
  case (Cons a t1)
  show ?thesis
  proof (cases t1)
    case Nil
    with Cons show ?thesis by simp
  next
    case (Cons b t2)
    with \<open>xs = a # t1\<close> show ?thesis by (cases t2) simp_all
  qed
qed

text \<open>
  C9. Take a completed run in which the search backend was called and answered. The hits
  of the answer are stored in the state, and the response is this text. With no hit: the
  sentence that nothing was found, with the query term in quotes and, when the state has a
  location, the location. With hits: a header with the query term (and the location),
  then one line for the first hit, for the first two, or for the first three, in the order
  of the answer and separated by newlines; a fourth and later hits are left out. The line
  of a hit is a dash, the name, and in parentheses the price, the currency and the vendor,
  each with its default when the hit lacks the key. So the value of each of the keys
  \<open>name\<close>, \<open>price\<close>, \<open>currency\<close> and \<open>vendor\<close> of each of the first three
  hits is part of the response, and with no hit the response contains the query term, and
  the location when there is one.
\<close>

theorem search_reply:
  assumes "invoke env state = (calls, Inr final)" and "Search q params \<in> set calls"
    and "search env q params = Some result"
  shows "search_results final = Present (Some (hits_of result))
       \<and> get (response final) = Some
           (let line = (\<lambda>hit.
                  ''- '' @ (case map_of hit ''name'' of None \<Rightarrow> ''N/A'' | Some v \<Rightarrow> json_str env v)
                  @ '' ('' @ (case map_of hit ''price'' of None \<Rightarrow> ''0'' | Some v \<Rightarrow> json_str env v)
                  @ '' '' @ (case map_of hit ''currency'' of None \<Rightarrow> [] | Some v \<Rightarrow> json_str env v)
                  @ '', Vendor: '' @ (case map_of hit ''vendor'' of None \<Rightarrow> ''N/A'' | Some v \<Rightarrow> json_str env v)
                  @ '')'');
                place = (case get (location final) of
                           None \<Rightarrow> [] | Some l \<Rightarrow> if l = [] then [] else '' in '' @ l);
                found = ''Found these results for '' @ [CHR 0x27] @ q @ [CHR 0x27] @ place
                          @ '':'' @ [CHR 0x0A]
            in case hits_of result of
                 [] \<Rightarrow> ''I couldn't find any '' @ [CHR 0x27] @ q @ [CHR 0x27] @ place @ ''.''
               | [h1] \<Rightarrow> found @ line h1
               | [h1, h2] \<Rightarrow> found @ line h1 @ [CHR 0x0A] @ line h2
               | h1 # h2 # h3 # rest \<Rightarrow>
                   found @ line h1 @ [CHR 0x0A] @ line h2 @ [CHR 0x0A] @ line h3)
       \<and> (\<forall>hit \<in> set (take 3 (hits_of result)).
            \<forall>k \<in> {''name'', ''price'', ''currency'', ''vendor''}.
              \<forall>v. map_of hit k = Some v \<longrightarrow>
                (\<exists>r. get (response final) = Some r \<and> sublist (json_str env v) r))
       \<and> (hits_of result = [] \<longrightarrow>
            (\<exists>r. get (response final) = Some r \<and> sublist q r
               \<and> (truthy (get (location final)) \<longrightarrow> sublist (py_format (get (location final))) r)))"
proof -
  from invoke_search_run [OF assms(1,2)] obtain s1 loc where
    f: "final = snd (search_meilisearch_node env s1)"
    and q: "get (item_name s1) = Some q" "q \<noteq> []" and p: "params = params_of s1"
    and e: "get (intent s1) \<noteq> Some ''error''" and l: "location s1 = Present loc"
    by (elim exE conjE)
  from assms(3) p have "search env q (params_of s1) = Some result" by simp
  note n = search_answered [OF q e l this]
  have lf: "get (location final) = loc" by (simp add: f n get_simps l)
  have 1: "search_results final = Present (Some (hits_of result))" by (simp add: f n)
  have g: "get (response final) = Some
             (if hits_of result = [] then
                ''I couldn't find any '' @ quoted q
                  @ (if truthy loc then '' in '' @ py_format loc @ ''.'' else ''.'')
              else
                ''Found these results for '' @ quoted q
                  @ (if truthy loc then '' in '' @ py_format loc else [])
                  @ '':'' @ [CHR 0x0A]
                  @ join [CHR 0x0A] (map (format_hit (json_str env)) (take 3 (hits_of result))))"
    by (simp add: f n get_simps)
  have 2: "get (response final) = Some
           (let line = (\<lambda>hit.
                  ''- '' @ (case map_of hit ''name'' of None \<Rightarrow> ''N/A'' | Some v \<Rightarrow> json_str env v)
                  @ '' ('' @ (case map_of hit ''price'' of None \<Rightarrow> ''0'' | Some v \<Rightarrow> json_str env v)
                  @ '' '' @ (case map_of hit ''currency'' of None \<Rightarrow> [] | Some v \<Rightarrow> json_str env v)
                  @ '', Vendor: '' @ (case map_of hit ''vendor'' of None \<Rightarrow> ''N/A'' | Some v \<Rightarrow> json_str env v)
                  @ '')'');
                place = (case get (location final) of
                           None \<Rightarrow> [] | Some l \<Rightarrow> if l = [] then [] else '' in '' @ l);
                found = ''Found these results for '' @ [CHR 0x27] @ q @ [CHR 0x27] @ place
                          @ '':'' @ [CHR 0x0A]
            in case hits_of result of
                 [] \<Rightarrow> ''I couldn't find any '' @ [CHR 0x27] @ q @ [CHR 0x27] @ place @ ''.''
               | [h1] \<Rightarrow> found @ line h1
               | [h1, h2] \<Rightarrow> found @ line h1 @ [CHR 0x0A] @ line h2
               | h1 # h2 # h3 # rest \<Rightarrow>
                   found @ line h1 @ [CHR 0x0A] @ line h2 @ [CHR 0x0A] @ line h3)"
  proof -
    from upto_three_cases [of "hits_of result"]
    consider "hits_of result = []" | a where "hits_of result = [a]"
      | a b where "hits_of result = [a, b]" | a b c r where "hits_of result = a # b # c # r"
      by (elim disjE exE)
    then show ?thesis
    proof cases
      case 1
      then show ?thesis
        by (cases loc) (simp_all add: g lf Let_def quoted_def py_format_def truthy_simps)
    next
      case 2
      then show ?thesis
        by (cases loc) (simp_all add: g lf Let_def quoted_def py_format_def truthy_simps
            join_def format_hit_def hit_get_def)
    next
      case 3
      then show ?thesis
        by (cases loc) (simp_all add: g lf Let_def quoted_def py_format_def truthy_simps
            join_def format_hit_def hit_get_def)
    next
      case 4
      then show ?thesis
        by (cases loc) (simp_all add: g lf Let_def quoted_def py_format_def truthy_simps
            join_def format_hit_def hit_get_def)
    qed
  qed
  have 3: "\<exists>r. get (response final) = Some r \<and> sublist (json_str env v) r"
    if h: "hit \<in> set (take 3 (hits_of result))"
      and k: "k \<in> {''name'', ''price'', ''currency'', ''vendor''}"
      and v: "map_of hit k = Some v" for hit k v
  proof -
    let ?h = "''Found these results for '' @ quoted q
                @ (if truthy loc then '' in '' @ py_format loc else []) @ '':'' @ [CHR 0x0A]"
    let ?j = "join [CHR 0x0A] (map (format_hit (json_str env)) (take 3 (hits_of result)))"
    from h have ne: "hits_of result \<noteq> []" by auto
    have r: "get (response final) = Some (?h @ ?j)" using ne by (simp add: g)
    from h have "format_hit (json_str env) hit \<in> set (map (format_hit (json_str env)) (take 3 (hits_of result)))"
      by simp
    then have "sublist (format_hit (json_str env) hit) ?j" by (rule join_sublist)
    with format_hit_shows [OF v k, of "json_str env"] have "sublist (json_str env v) ?j"
      by (rule sublist_order.order.trans)
    moreover have "sublist ?j (?h @ ?j)" by (rule sublist_append_leftI)
    ultimately have s: "sublist (json_str env v) (?h @ ?j)" by (rule sublist_order.order.trans)
    show ?thesis by (rule exI [where x = "?h @ ?j"]) (intro conjI r s)
  qed
  have 4: "\<exists>r. get (response final) = Some r \<and> sublist q r
               \<and> (truthy (get (location final)) \<longrightarrow> sublist (py_format (get (location final))) r)"
    if h: "hits_of result = []"
  proof -
    let ?r = "''I couldn't find any '' @ quoted q
                @ (if truthy loc then '' in '' @ py_format loc @ ''.'' else ''.'')"
    have r: "get (response final) = Some ?r" using h by (simp add: g)
    have sq: "sublist q ?r"
      using sublist_appendI [of q "''I couldn't find any '' @ [CHR 0x27]"
          "[CHR 0x27] @ (if truthy loc then '' in '' @ py_format loc @ ''.'' else ''.'')"]
      by (simp add: quoted_def)
    have sl: "sublist (py_format loc) ?r" if "truthy loc"
      using that sublist_appendI [of "py_format loc" "''I couldn't find any '' @ quoted q @ '' in ''" "''.''"]
      by simp
    have sl': "truthy (get (location final)) \<longrightarrow> sublist (py_format (get (location final))) ?r"
      unfolding lf using sl by (rule impI)
    show ?thesis by (rule exI [where x = ?r]) (intro conjI r sq sl')
  qed
  from 1 2 3 4 show ?thesis by (intro conjI ballI allI impI)
qed

text \<open>
  A query for \<open>iphone\<close> in Kampala that finds four hits: the response is the header and
  the lines of the first three.
\<close>

theorem search_reply_witness:
  "\<exists>calls final.
     invoke stocked_env (state_of text_message) = (calls, Inr final)
     \<and> Search ''iphone'' [(''filter'', ''vendor = '' @ [CHR 0x27] @ ''Kampala'' @ [CHR 0x27])] \<in> set calls
     \<and> search stocked_env ''iphone'' [(''filter'', ''vendor = '' @ [CHR 0x27] @ ''Kampala'' @ [CHR 0x27])]
         = Some (Some four_hits)
     \<and> search_results final = Present (Some four_hits)
     \<and> get (response final) =
         Some (''Found these results for 'iphone' in Kampala:'' @ [CHR 0x0A]
               @ ''- iPhone 12 (2500000 UGX, Vendor: 256700000002)'' @ [CHR 0x0A]
               @ ''- iPhone 11 (1900000 UGX, Vendor: 256700000003)'' @ [CHR 0x0A]
               @ ''- iPhone case (0 , Vendor: N/A)'')"
proof -
  let ?P = "[(''filter'', ''vendor = '' @ [CHR 0x27] @ ''Kampala'' @ [CHR 0x27])]"
  have "item_name (state_of text_message) \<noteq> Absent" by (simp add: state_of_text_message)
  from invoke_total [OF this, of stocked_env] obtain calls final where
    i: "invoke stocked_env (state_of text_message) = (calls, Inr final)" by (elim exE)
  have "Search ''iphone'' ?P \<in> set (fst (invoke stocked_env (state_of text_message)))"
    by (simp add: state_of_def initial_state_def text_message_def first_media_def
      stocked_env_def sample_env_def sample_analysis_def invoke_def analyze_intent_node_def
      apply_analysis_def route_after_intent_analysis_def search_meilisearch_node_def
      Let_def get_simps truthy_simps is_in_simps query_intents_def ingest_intents_def item_simps
      py_format_def quoted_def four_hits_def)
  with i have m: "Search ''iphone'' ?P \<in> set calls" by simp
  have s: "search stocked_env ''iphone'' ?P = Some (Some four_hits)" by (simp add: stocked_env_def)
  have "map_sum id location (snd (invoke stocked_env (state_of text_message)))
          = Inr (Present (Some ''Kampala''))"
    by (simp add: state_of_def initial_state_def text_message_def first_media_def
      stocked_env_def sample_env_def sample_analysis_def invoke_def analyze_intent_node_def
      apply_analysis_def route_after_intent_analysis_def search_meilisearch_node_def
      Let_def get_simps truthy_simps is_in_simps query_intents_def ingest_intents_def item_simps
      py_format_def quoted_def four_hits_def)
  with i have l: "get (location final) = Some ''Kampala''" by (simp add: get_simps)
  have j: "json_str stocked_env = (\<lambda>v. v)" by (simp add: stocked_env_def sample_env_def)
  from search_reply [OF i m s]
  have r: "search_results final = Present (Some four_hits)"
    and t: "get (response final) =
         Some (''Found these results for 'iphone' in Kampala:'' @ [CHR 0x0A]
               @ ''- iPhone 12 (2500000 UGX, Vendor: 256700000002)'' @ [CHR 0x0A]
               @ ''- iPhone 11 (1900000 UGX, Vendor: 256700000003)'' @ [CHR 0x0A]
               @ ''- iPhone case (0 , Vendor: N/A)'')"
    by (simp_all add: hits_of_def l j four_hits_def Let_def)
  show ?thesis
    by (rule exI [where x = calls], rule exI [where x = final]) (intro conjI i m s r t)
qed

subsection \<open>C10: the guard of the search step\<close>

text \<open>
  C10. For a state without an item name (missing, \<open>None\<close> or empty), or with the intent
  \<open>error\<close>, the search step calls nothing, stores the empty list of results and leaves
  a non-empty response: the response it found if that was a non-empty string, the fallback
  sentence otherwise. Nothing else in the state changes.
\<close>

theorem search_guard:
  assumes "\<not> truthy (get (item_name state)) \<or> get (intent state) = Some ''error''"
  shows "fst (search_meilisearch_node env state) = []
       \<and> search_results (snd (search_meilisearch_node env state)) = Present (Some [])
       \<and> truthy (get (response (snd (search_meilisearch_node env state))))
       \<and> response (snd (search_meilisearch_node env state)) =
           (if truthy (get (response state)) then response state
            else Present (Some ''Sorry, I couldn't determine what to search for.''))
       \<and> snd (search_meilisearch_node env state) =
           state\<lparr>response := response (snd (search_meilisearch_node env state)),
                 search_results := Present (Some [])\<rparr>"
  by (simp add: search_guarded [OF assms] get_simps truthy_simps)

theorem search_guard_witness:
  "\<not> truthy (get (item_name (state_of empty_message)))
   \<and> fst (search_meilisearch_node sample_env (state_of empty_message)) = []
   \<and> search_results (snd (search_meilisearch_node sample_env (state_of empty_message))) = Present (Some [])
   \<and> response (snd (search_meilisearch_node sample_env (state_of empty_message)))
       = Present (Some ''Sorry, I couldn't determine what to search for.'')"
proof -
  have n: "\<not> truthy (get (item_name (state_of empty_message)))"
    by (simp add: state_of_empty_message get_simps truthy_simps)
  then have h: "\<not> truthy (get (item_name (state_of empty_message)))
                 \<or> get (intent (state_of empty_message)) = Some ''error''" by simp
  have r: "\<not> truthy (get (response (state_of empty_message)))"
    by (simp add: state_of_empty_message get_simps truthy_simps)
  from search_guard [OF h, of sample_env] n r show ?thesis
    by (elim conjE) simp
qed

end
